theory Spec2Isabelle
  imports Main "HOL-Library.Sublist" "HOL-Library.Word"
begin

unbundle bit_operations_syntax

section \<open>Errors\<close>

text \<open>
  A Go \<open>error\<close> value. \<open>ErrorString\<close> is what \<open>errors.New\<close> builds, and
  \<open>fmt.Errorf\<close> without a \<open>%w\<close> verb; \<open>Wrapped prefix e\<close> is
  \<open>fmt.Errorf(prefix + "%w", e)\<close>: its message is the prefix followed by the message
  of \<open>e\<close>, and \<open>errors.Unwrap\<close> gives \<open>e\<close> back. \<open>TransportError\<close>,
  \<open>FaultError\<close> and \<open>DecodeError\<close> are the three classes of spec section 7 that a
  SOAP exchange can fail with. The last four are the errors of Go's net/url:
  \<open>EscapeError\<close> and \<open>InvalidHostError\<close> are its types of these names,
  \<open>InvalidPortError port\<close> is its \<open>fmt.Errorf("invalid port %q after host", port)\<close>,
  and \<open>URLError op url err\<close> is its \<open>*url.Error\<close>, which unwraps to \<open>err\<close>. The
  messages of these four quote a string with \<open>%q\<close>; that quoting is not written out,
  and \<open>Error\<close> says nothing about them.
\<close>

datatype error =
    ErrorString string
  | TransportError string
  | FaultError string string
  | DecodeError string
  | Wrapped string error
  | EscapeError string
  | InvalidHostError string
  | InvalidPortError string
  | URLError string string error



section \<open>Outcomes\<close>

text \<open>
  What a Go function call ends in: it returns a value, or it panics (a nil pointer is
  dereferenced) and returns nothing. A wrapper that in Go returns \<open>(T, error)\<close> or
  \<open>error\<close> returns \<open>error + T\<close> here (\<open>unit\<close> for \<open>T\<close> when there is only the
  error): \<open>Inl err\<close> is the non-nil error, \<open>Inr v\<close> the value with a nil error.
\<close>

datatype 'a outcome = Panics | Returns 'a

section \<open>client.go: the client and its credentials\<close>

text \<open>
  \<open>http.Client\<close> and \<open>http.Transport\<close> of Go's standard library, by the fields
  that client.go sets. A \<open>time.Duration\<close> is its count of nanoseconds, an
  \<open>int64\<close> in Go and an \<open>int\<close> here: client.go stores durations and computes
  none but the constants \<open>30 * time.Second\<close> and \<open>90 * time.Second\<close>.
\<close>

record http_Transport =
  MaxIdleConns :: int
  MaxIdleConnsPerHost :: int
  IdleConnTimeout :: int

record http_Client =
  Transport :: "http_Transport option"
  Timeout :: int

definition Second :: int where
  "Second = 1000000000"

text \<open>
  \<open>Client\<close> of client.go. The \<open>sync.RWMutex\<close> field \<open>mu\<close> only orders
  concurrent accesses to \<open>username\<close> and \<open>password\<close>; in a sequential run every
  \<open>Lock\<close>/\<open>Unlock\<close> and \<open>RLock\<close>/\<open>RUnlock\<close> pair leaves it as it found it, so
  it is not a field here. \<open>httpClient\<close> is a pointer: \<open>None\<close> is nil, \<open>Some h\<close>
  the \<open>http.Client\<close> it points to.
\<close>

record Client =
  endpoint :: string
  username :: string
  password :: string
  httpClient :: "http_Client option"
  mediaEndpoint :: string
  ptzEndpoint :: string
  imagingEndpoint :: string
  eventEndpoint :: string

text \<open>\<open>SetCredentials\<close> writes both fields; the updated client is returned.\<close>

definition SetCredentials :: "string \<Rightarrow> string \<Rightarrow> Client \<Rightarrow> Client" where
  "SetCredentials u p c = c\<lparr>username := u, password := p\<rparr>"

text \<open>
  \<open>GetCredentials\<close> returns the pair it reads, together with the client as it leaves
  it, so that what it does to the client is part of its result.
\<close>

definition GetCredentials :: "Client \<Rightarrow> (string \<times> string) \<times> Client" where
  "GetCredentials c = ((username c, password c), c)"

text \<open>
  A \<open>ClientOption\<close> is a \<open>func(*Client)\<close>: it changes the client it is given, or
  panics; as a value of function type it may itself be nil (\<open>None\<close>). The three
  options of client.go: \<open>WithTimeout\<close> writes \<open>c.httpClient.Timeout\<close>, which
  dereferences \<open>c.httpClient\<close> and panics when that is nil; \<open>WithHTTPClient\<close> stores
  the pointer it is given, nil or not; \<open>WithCredentials\<close> writes the two fields.
  The \<open>http.Client\<close> is held by value in the client: that \<open>WithTimeout\<close> after
  \<open>WithHTTPClient(h)\<close> also changes the caller's \<open>*h\<close> is outside this model.
\<close>

type_synonym ClientOption = "(Client \<Rightarrow> Client outcome) option"

definition WithTimeout :: "int \<Rightarrow> ClientOption" where
  "WithTimeout timeout =
    Some (\<lambda>c. case httpClient c of
                 None \<Rightarrow> Panics
               | Some h \<Rightarrow> Returns (c\<lparr>httpClient := Some (h\<lparr>Timeout := timeout\<rparr>)\<rparr>))"

definition WithHTTPClient :: "http_Client option \<Rightarrow> ClientOption" where
  "WithHTTPClient h = Some (\<lambda>c. Returns (c\<lparr>httpClient := h\<rparr>))"

definition WithCredentials :: "string \<Rightarrow> string \<Rightarrow> ClientOption" where
  "WithCredentials u p = Some (\<lambda>c. Returns (c\<lparr>username := u, password := p\<rparr>))"

definition HasPrefix :: "string \<Rightarrow> string \<Rightarrow> bool" where
  "HasPrefix s p = (take (length p) s = p)"

section \<open>Go's net/url, as normalizeEndpoint uses it\<close>

text \<open>
  \<open>url.Parse\<close> and \<open>(*URL).String\<close> are Go's standard library, not code of this
  repository. They are what relates the string \<open>normalizeEndpoint\<close> returns to the
  string it is given, so they are written out here, function by function and under the
  names of net/url (as of Go 1.22), on strings of bytes. \<open>Parse\<close> is never called on
  behalf of a request (\<open>viaRequest\<close> is false), so the branches for that are left out.
  A \<open>*Userinfo\<close> is the user name with the password when one is set.
\<close>

definition isLetter :: "char \<Rightarrow> bool" where
  "isLetter c \<longleftrightarrow> (97 \<le> (of_char c :: nat) \<and> (of_char c :: nat) \<le> 122)
                 \<or> (65 \<le> (of_char c :: nat) \<and> (of_char c :: nat) \<le> 90)"

definition isDigit :: "char \<Rightarrow> bool" where
  "isDigit c \<longleftrightarrow> 48 \<le> (of_char c :: nat) \<and> (of_char c :: nat) \<le> 57"

definition ishex :: "char \<Rightarrow> bool" where
  "ishex c \<longleftrightarrow> isDigit c
               \<or> (97 \<le> (of_char c :: nat) \<and> (of_char c :: nat) \<le> 102)
               \<or> (65 \<le> (of_char c :: nat) \<and> (of_char c :: nat) \<le> 70)"

definition unhex :: "char \<Rightarrow> nat" where
  "unhex c =
    (if isDigit c then of_char c - 48
     else if 97 \<le> (of_char c :: nat) \<and> (of_char c :: nat) \<le> 102 then of_char c - 97 + 10
     else if 65 \<le> (of_char c :: nat) \<and> (of_char c :: nat) \<le> 70 then of_char c - 65 + 10
     else 0)"

definition upperhex :: string where
  "upperhex = ''0123456789ABCDEF''"

datatype encoding =
    encodePath | encodePathSegment | encodeHost | encodeZone | encodeUserPassword
  | encodeQueryComponent | encodeFragment

text \<open>
  \<open>shouldEscape\<close>: letters and digits never; in a host the sub-delimiters and
  \<open>: [ ] < > "\<close> neither; the marks \<open>- _ . ~\<close> never; a reserved character according
  to the part of the URL; in a fragment \<open>! ( ) *\<close> neither; everything else is
  escaped.
\<close>

definition shouldEscape :: "char \<Rightarrow> encoding \<Rightarrow> bool" where
  "shouldEscape c mode =
    (if isLetter c \<or> isDigit c then False
     else if (mode = encodeHost \<or> mode = encodeZone)
             \<and> c \<in> set (''!$&()*+,;=:[]<>'' @ [CHR 0x27, CHR 0x22]) then False
     else if c \<in> set ''-_.~'' then False
     else if c \<in> set ''$&+,/:;=?@'' then
       (case mode of
          encodePath \<Rightarrow> c = CHR ''?''
        | encodePathSegment \<Rightarrow> c \<in> set ''/;,?''
        | encodeUserPassword \<Rightarrow> c \<in> set ''@/?:''
        | encodeQueryComponent \<Rightarrow> True
        | encodeFragment \<Rightarrow> False
        | encodeHost \<Rightarrow> True
        | encodeZone \<Rightarrow> True)
     else if mode = encodeFragment \<and> c \<in> set ''!()*'' then False
     else True)"

text \<open>
  \<open>unescape\<close> first checks every \<open>%\<close> escape and, for a host, every byte; then it
  decodes. \<open>unescape_check\<close> is the first loop (the error it stops with, if any),
  \<open>unescape_decode\<close> the second.
\<close>

fun unescape_check :: "encoding \<Rightarrow> string \<Rightarrow> error option" where
  "unescape_check mode [] = None"
| "unescape_check mode (c # s) =
    (if c = CHR ''%'' then
       (case s of
          h1 # h2 # s' \<Rightarrow>
            if \<not> ishex h1 \<or> \<not> ishex h2 then Some (EscapeError (take 3 (c # s)))
            else if mode = encodeHost \<and> unhex h1 < 8 \<and> [c, h1, h2] \<noteq> ''%25''
              then Some (EscapeError [c, h1, h2])
            else if mode = encodeZone \<and> [c, h1, h2] \<noteq> ''%25''
                    \<and> char_of (unhex h1 * 16 + unhex h2) \<noteq> CHR '' ''
                    \<and> shouldEscape (char_of (unhex h1 * 16 + unhex h2)) encodeHost
              then Some (EscapeError [c, h1, h2])
            else unescape_check mode s'
        | _ \<Rightarrow> Some (EscapeError (take 3 (c # s))))
     else if c = CHR ''+'' then unescape_check mode s
     else if (mode = encodeHost \<or> mode = encodeZone) \<and> (of_char c :: nat) < 128
             \<and> shouldEscape c encodeHost
       then Some (InvalidHostError [c])
     else unescape_check mode s)"

fun unescape_decode :: "encoding \<Rightarrow> string \<Rightarrow> string" where
  "unescape_decode mode [] = []"
| "unescape_decode mode (c # s) =
    (if c = CHR ''%'' then
       (case s of
          h1 # h2 # s' \<Rightarrow> char_of (unhex h1 * 16 + unhex h2) # unescape_decode mode s'
        | _ \<Rightarrow> c # s)
     else if c = CHR ''+'' \<and> mode = encodeQueryComponent then CHR '' '' # unescape_decode mode s
     else c # unescape_decode mode s)"

definition unescape :: "string \<Rightarrow> encoding \<Rightarrow> error + string" where
  "unescape s mode =
    (case unescape_check mode s of
       Some err \<Rightarrow> Inl err
     | None \<Rightarrow> Inr (unescape_decode mode s))"

definition escape :: "string \<Rightarrow> encoding \<Rightarrow> string" where
  "escape s mode =
    concat (map (\<lambda>c. if shouldEscape c mode
                      then (if c = CHR '' '' \<and> mode = encodeQueryComponent then ''+''
                            else [CHR ''%'', upperhex ! ((of_char c :: nat) div 16),
                                  upperhex ! ((of_char c :: nat) mod 16)])
                      else [c]) s)"

definition validEncoded :: "string \<Rightarrow> encoding \<Rightarrow> bool" where
  "validEncoded s mode =
    list_all (\<lambda>c. c \<in> set (''!$&()*+,;=:@[]%'' @ [CHR 0x27]) \<or> \<not> shouldEscape c mode) s"

text \<open>\<open>strings.Cut\<close>, \<open>strings.LastIndex\<close> and \<open>strings.Index\<close>, \<open>strings.ToLower\<close>.\<close>

definition Cut :: "string \<Rightarrow> char \<Rightarrow> string \<times> string \<times> bool" where
  "Cut s sep =
    (if sep \<in> set s
     then (takeWhile (\<lambda>c. c \<noteq> sep) s, tl (dropWhile (\<lambda>c. c \<noteq> sep) s), True)
     else (s, [], False))"

definition LastIndex :: "string \<Rightarrow> char \<Rightarrow> nat option" where
  "LastIndex s sep =
    (if sep \<in> set s
     then Some (length s - 1 - length (takeWhile (\<lambda>c. c \<noteq> sep) (rev s)))
     else None)"

fun Index :: "string \<Rightarrow> string \<Rightarrow> nat option" where
  "Index [] sub = (if sub = [] then Some 0 else None)"
| "Index (c # s) sub =
    (if take (length sub) (c # s) = sub then Some 0 else map_option Suc (Index s sub))"

definition ToLower :: "string \<Rightarrow> string" where
  "ToLower s =
    map (\<lambda>c. if 65 \<le> (of_char c :: nat) \<and> (of_char c :: nat) \<le> 90
              then char_of ((of_char c :: nat) + 32) else c) s"

definition stringContainsCTLByte :: "string \<Rightarrow> bool" where
  "stringContainsCTLByte s \<longleftrightarrow> (\<exists>b \<in> set s. (of_char b :: nat) < 32 \<or> (of_char b :: nat) = 127)"

text \<open>
  \<open>getScheme\<close>: the loop over \<open>rawURL\<close>, with the bytes already passed in \<open>seen\<close>.
\<close>

fun getScheme_loop :: "string \<Rightarrow> string \<Rightarrow> string \<Rightarrow> error + string \<times> string" where
  "getScheme_loop rawURL seen [] = Inr ([], rawURL)"
| "getScheme_loop rawURL seen (c # s) =
    (if isLetter c then getScheme_loop rawURL (seen @ [c]) s
     else if isDigit c \<or> c \<in> set ''+-.'' then
       (if seen = [] then Inr ([], rawURL) else getScheme_loop rawURL (seen @ [c]) s)
     else if c = CHR '':'' then
       (if seen = [] then Inl (ErrorString ''missing protocol scheme'') else Inr (seen, s))
     else Inr ([], rawURL))"

definition getScheme :: "string \<Rightarrow> error + string \<times> string" where
  "getScheme rawURL = getScheme_loop rawURL [] rawURL"

definition validOptionalPort :: "string \<Rightarrow> bool" where
  "validOptionalPort port \<longleftrightarrow>
     port = [] \<or> (hd port = CHR '':'' \<and> list_all isDigit (tl port))"

definition validUserinfo :: "string \<Rightarrow> bool" where
  "validUserinfo s =
    list_all (\<lambda>r. isLetter r \<or> isDigit r
                 \<or> r \<in> set (''-._:~!$&()*+,;=%@'' @ [CHR 0x27])) s"

definition parseHost :: "string \<Rightarrow> error + string" where
  "parseHost host =
    (if HasPrefix host ''['' then
       (case LastIndex host CHR '']'' of
          None \<Rightarrow> Inl (ErrorString ''missing ] in host'')
        | Some i \<Rightarrow>
            if \<not> validOptionalPort (drop (i + 1) host)
            then Inl (InvalidPortError (drop (i + 1) host))
            else
              (case Index (take i host) ''%25'' of
                 Some zone \<Rightarrow>
                   (case unescape (take zone host) encodeHost of
                      Inl err \<Rightarrow> Inl err
                    | Inr host1 \<Rightarrow>
                        (case unescape (drop zone (take i host)) encodeZone of
                           Inl err \<Rightarrow> Inl err
                         | Inr host2 \<Rightarrow>
                             (case unescape (drop i host) encodeHost of
                                Inl err \<Rightarrow> Inl err
                              | Inr host3 \<Rightarrow> Inr (host1 @ host2 @ host3))))
               | None \<Rightarrow> unescape host encodeHost))
     else
       (case LastIndex host CHR '':'' of
          Some i \<Rightarrow>
            if \<not> validOptionalPort (drop i host) then Inl (InvalidPortError (drop i host))
            else unescape host encodeHost
        | None \<Rightarrow> unescape host encodeHost))"

definition parseAuthority ::
  "string \<Rightarrow> error + (string \<times> string option) option \<times> string" where
  "parseAuthority authority =
    (case LastIndex authority CHR ''@'' of
       None \<Rightarrow>
         (case parseHost authority of
            Inl err \<Rightarrow> Inl err
          | Inr host \<Rightarrow> Inr (None, host))
     | Some i \<Rightarrow>
         (case parseHost (drop (i + 1) authority) of
            Inl err \<Rightarrow> Inl err
          | Inr host \<Rightarrow>
              (let userinfo = take i authority in
               if \<not> validUserinfo userinfo then Inl (ErrorString ''net/url: invalid userinfo'')
               else if CHR '':'' \<notin> set userinfo then
                 (case unescape userinfo encodeUserPassword of
                    Inl err \<Rightarrow> Inl err
                  | Inr name \<Rightarrow> Inr (Some (name, None), host))
               else
                 (case Cut userinfo CHR '':'' of
                    (name, pass, found) \<Rightarrow>
                      (case unescape name encodeUserPassword of
                         Inl err \<Rightarrow> Inl err
                       | Inr name' \<Rightarrow>
                           (case unescape pass encodeUserPassword of
                              Inl err \<Rightarrow> Inl err
                            | Inr pass' \<Rightarrow> Inr (Some (name', Some pass'), host)))))))"

record URL =
  Scheme :: string
  Opaque :: string
  User :: "(string \<times> string option) option"
  Host :: string
  Path :: string
  RawPath :: string
  OmitHost :: bool
  ForceQuery :: bool
  RawQuery :: string
  Fragment :: string
  RawFragment :: string

definition setPath :: "URL \<Rightarrow> string \<Rightarrow> error + URL" where
  "setPath u p =
    (case unescape p encodePath of
       Inl err \<Rightarrow> Inl err
     | Inr path \<Rightarrow>
         Inr (u\<lparr>Path := path,
                RawPath := (if p = escape path encodePath then [] else p)\<rparr>))"

definition setFragment :: "URL \<Rightarrow> string \<Rightarrow> error + URL" where
  "setFragment u f =
    (case unescape f encodeFragment of
       Inl err \<Rightarrow> Inl err
     | Inr frag \<Rightarrow>
         Inr (u\<lparr>Fragment := frag,
                RawFragment := (if f = escape frag encodeFragment then [] else f)\<rparr>))"

text \<open>\<open>parse(rawURL, false)\<close>: the URL without its fragment.\<close>

definition parse :: "string \<Rightarrow> error + URL" where
  "parse rawURL =
    (let url = \<lparr>Scheme = [], Opaque = [], User = None, Host = [], Path = [], RawPath = [],
                OmitHost = False, ForceQuery = False, RawQuery = [], Fragment = [],
                RawFragment = []\<rparr> in
     if stringContainsCTLByte rawURL
       then Inl (ErrorString ''net/url: invalid control character in URL'')
     else if rawURL = ''*'' then Inr (url\<lparr>Path := ''*''\<rparr>)
     else
       (case getScheme rawURL of
          Inl err \<Rightarrow> Inl err
        | Inr (scheme, rest0) \<Rightarrow>
            (let url1 = url\<lparr>Scheme := ToLower scheme\<rparr>;
                 force = (rest0 \<noteq> [] \<and> last rest0 = CHR ''?''
                          \<and> count_list rest0 CHR ''?'' = 1);
                 rest1 = (if force then butlast rest0 else fst (Cut rest0 CHR ''?''));
                 url2 = (if force then url1\<lparr>ForceQuery := True\<rparr>
                         else url1\<lparr>RawQuery := fst (snd (Cut rest0 CHR ''?''))\<rparr>)
             in
             if \<not> HasPrefix rest1 ''/'' \<and> Scheme url2 \<noteq> []
               then Inr (url2\<lparr>Opaque := rest1\<rparr>)
             else if \<not> HasPrefix rest1 ''/''
                     \<and> CHR '':'' \<in> set (fst (Cut rest1 CHR ''/''))
               then Inl (ErrorString ''first path segment in URL cannot contain colon'')
             else if (Scheme url2 \<noteq> [] \<or> \<not> HasPrefix rest1 ''///'') \<and> HasPrefix rest1 ''//''
               then
                 (let authority = takeWhile (\<lambda>c. c \<noteq> CHR ''/'') (drop 2 rest1);
                      rest2 = dropWhile (\<lambda>c. c \<noteq> CHR ''/'') (drop 2 rest1) in
                  case parseAuthority authority of
                    Inl err \<Rightarrow> Inl err
                  | Inr (user, host) \<Rightarrow> setPath (url2\<lparr>User := user, Host := host\<rparr>) rest2)
             else if Scheme url2 \<noteq> [] \<and> HasPrefix rest1 ''/''
               then setPath (url2\<lparr>OmitHost := True\<rparr>) rest1
             else setPath url2 rest1)))"

definition Parse :: "string \<Rightarrow> error + URL" where
  "Parse rawURL =
    (case Cut rawURL CHR ''#'' of
       (u, frag, found) \<Rightarrow>
         (case parse u of
            Inl err \<Rightarrow> Inl (URLError ''parse'' u err)
          | Inr url \<Rightarrow>
              if frag = [] then Inr url
              else (case setFragment url frag of
                      Inl err \<Rightarrow> Inl (URLError ''parse'' rawURL err)
                    | Inr url' \<Rightarrow> Inr url')))"

definition EscapedPath :: "URL \<Rightarrow> string" where
  "EscapedPath u =
    (if RawPath u \<noteq> [] \<and> validEncoded (RawPath u) encodePath
        \<and> unescape (RawPath u) encodePath = Inr (Path u)
     then RawPath u
     else if Path u = ''*'' then ''*''
     else escape (Path u) encodePath)"

definition EscapedFragment :: "URL \<Rightarrow> string" where
  "EscapedFragment u =
    (if RawFragment u \<noteq> [] \<and> validEncoded (RawFragment u) encodeFragment
        \<and> unescape (RawFragment u) encodeFragment = Inr (Fragment u)
     then RawFragment u
     else escape (Fragment u) encodeFragment)"

definition Userinfo_String :: "string \<times> string option \<Rightarrow> string" where
  "Userinfo_String ui =
    (case ui of
       (name, None) \<Rightarrow> escape name encodeUserPassword
     | (name, Some pass) \<Rightarrow>
         escape name encodeUserPassword @ '':'' @ escape pass encodeUserPassword)"

text \<open>\<open>(*URL).String\<close>: \<open>buf\<close> is what has been written before the path.\<close>

definition String :: "URL \<Rightarrow> string" where
  "String u =
    (let buf0 = (if Scheme u \<noteq> [] then Scheme u @ '':'' else []);
         body =
           (if Opaque u \<noteq> [] then buf0 @ Opaque u
            else
              (let buf1 =
                     (if Scheme u \<noteq> [] \<or> Host u \<noteq> [] \<or> User u \<noteq> None then
                        (if OmitHost u \<and> Host u = [] \<and> User u = None then buf0
                         else
                           buf0
                           @ (if Host u \<noteq> [] \<or> Path u \<noteq> [] \<or> User u \<noteq> None
                              then ''//'' else [])
                           @ (case User u of
                                None \<Rightarrow> []
                              | Some ui \<Rightarrow> Userinfo_String ui @ ''@'')
                           @ (if Host u \<noteq> [] then escape (Host u) encodeHost else []))
                      else buf0);
                   path = EscapedPath u;
                   buf2 = (if path \<noteq> [] \<and> hd path \<noteq> CHR ''/'' \<and> Host u \<noteq> []
                           then buf1 @ ''/'' else buf1);
                   buf3 = (if buf2 = [] \<and> CHR '':'' \<in> set (fst (Cut path CHR ''/''))
                           then buf2 @ ''./'' else buf2)
               in buf3 @ path))
     in body
        @ (if ForceQuery u \<or> RawQuery u \<noteq> [] then ''?'' @ RawQuery u else [])
        @ (if Fragment u \<noteq> [] then ''#'' @ EscapedFragment u else []))"

text \<open>
  URLs that are already written the way \<open>String\<close> writes them: a host name of
  letters, digits and \<open>- _ . ~\<close>, an optional port, and a path of such characters
  and \<open>/\<close> that is empty or starts with \<open>/\<close>.
\<close>

definition unreserved :: "char \<Rightarrow> bool" where
  "unreserved c \<longleftrightarrow> isLetter c \<or> isDigit c \<or> c \<in> set ''-_.~''"

definition plain_name :: "string \<Rightarrow> bool" where
  "plain_name name \<longleftrightarrow> name \<noteq> [] \<and> list_all unreserved name"

definition plain_path :: "string \<Rightarrow> bool" where
  "plain_path p \<longleftrightarrow>
     (p = [] \<or> hd p = CHR ''/'') \<and> list_all (\<lambda>c. unreserved c \<or> c = CHR ''/'') p"

section \<open>client.go: normalizeEndpoint and NewClient\<close>

definition normalizeEndpoint :: "string \<Rightarrow> error + string" where
  "normalizeEndpoint ep =
    (if HasPrefix ep ''http://'' \<or> HasPrefix ep ''https://'' then
       (case Parse ep of
          Inl err \<Rightarrow> Inl err
        | Inr parsedURL \<Rightarrow>
            if Host parsedURL = [] then Inl (ErrorString ''URL missing host'')
            else if Path parsedURL = [] \<or> Path parsedURL = ''/''
              then Inr (String (parsedURL\<lparr>Path := ''/onvif/device_service''\<rparr>))
              else Inr (String parsedURL))
     else
       (let fullURL = ''http://'' @ ep @ ''/onvif/device_service'' in
        case Parse fullURL of
          Inl err \<Rightarrow> Inl (Wrapped ''invalid IP address or hostname: '' err)
        | Inr parsedURL \<Rightarrow>
            if Host parsedURL = [] then Inl (ErrorString ''invalid endpoint format'')
            else Inr fullURL))"

text \<open>
  The loop of \<open>NewClient\<close> over its options, in order: calling a nil option panics,
  and so does an option that panics.
\<close>

fun applyOptions :: "ClientOption list \<Rightarrow> Client \<Rightarrow> Client outcome" where
  "applyOptions [] client = Returns client"
| "applyOptions (opt # opts) client =
    (case opt of
       None \<Rightarrow> Panics
     | Some f \<Rightarrow>
         (case f client of
            Panics \<Rightarrow> Panics
          | Returns client' \<Rightarrow> applyOptions opts client'))"

text \<open>
  \<open>NewClient\<close>: the error of \<open>normalizeEndpoint\<close> wrapped, or the client with the
  normalized endpoint, an HTTP client with a 30 second timeout on a transport of its
  own and every other field zero, after the options.
\<close>

definition NewClient :: "string \<Rightarrow> ClientOption list \<Rightarrow> (error + Client) outcome" where
  "NewClient ep opts =
    (case normalizeEndpoint ep of
       Inl err \<Rightarrow> Returns (Inl (Wrapped ''invalid endpoint: '' err))
     | Inr normalizedEndpoint \<Rightarrow>
         (case applyOptions opts
                 \<lparr>endpoint = normalizedEndpoint, username = [], password = [],
                  httpClient =
                    Some \<lparr>Transport =
                            Some \<lparr>MaxIdleConns = 10, MaxIdleConnsPerHost = 5,
                                  IdleConnTimeout = 90 * Second\<rparr>,
                          Timeout = 30 * Second\<rparr>,
                  mediaEndpoint = [], ptzEndpoint = [], imagingEndpoint = [],
                  eventEndpoint = []\<rparr> of
            Panics \<Rightarrow> Panics
          | Returns client \<Rightarrow> Returns (Inr client)))"

section \<open>The SOAP call\<close>


text \<open>
  One HTTP POST exchange, by what it was issued with: the credentials of the SOAP client,
  the endpoint, the SOAP action, and whether the caller passed a response target
  (\<open>&resp\<close>) or \<open>nil\<close>. The world the wrappers act on is the sequence of the
  exchanges issued so far, each with the error its \<open>Call\<close> returned (\<open>None\<close> for
  nil).
\<close>

record post =
  post_username :: string
  post_password :: string
  post_endpoint :: string
  post_action :: string
  post_target :: bool

type_synonym world = "(post \<times> error option) list"

text \<open>
  Modelled from the spec: \<open>soap.Client\<close>, \<open>soap.NewClient\<close> and \<open>Call\<close> are in the
  package internal/soap, which is not under src/. By spec 4.3 one \<open>Call\<close> builds the
  envelope, signs it with the credentials the SOAP client was created with, issues one
  HTTP POST and decodes the reply into the target, and it fails with a transport, fault
  or decode error or returns nil. What the network, the device and the codec make of one
  exchange is the parameter \<open>X\<close>: given the exchanges before this one, what this one is
  issued with and the request value, it yields the error or the decoded response
  (\<open>unit\<close> for a nil target).
\<close>

record soap_Client =
  soap_httpClient :: "http_Client option"
  soap_username :: string
  soap_password :: string

definition soap_NewClient ::
  "http_Client option \<Rightarrow> string \<Rightarrow> string \<Rightarrow> soap_Client" where
  "soap_NewClient h u p = \<lparr>soap_httpClient = h, soap_username = u, soap_password = p\<rparr>"

type_synonym ('q, 'r) exchange = "world \<Rightarrow> post \<Rightarrow> 'q \<Rightarrow> error + 'r"

definition Call ::
  "('q, 'r) exchange \<Rightarrow> soap_Client \<Rightarrow> string \<Rightarrow> string \<Rightarrow> 'q \<Rightarrow> bool \<Rightarrow> world
     \<Rightarrow> (error + 'r) \<times> world" where
  "Call X sc ep action req target w =
    (let p = \<lparr>post_username = soap_username sc, post_password = soap_password sc,
               post_endpoint = ep, post_action = action, post_target = target\<rparr>;
         r = X w p req
     in (r, w @ [(p, case r of Inl err \<Rightarrow> Some err | Inr resp \<Rightarrow> None)]))"

text \<open>\<open>fmt.Errorf(name + " failed: %w", err)\<close>, the error every wrapper returns.\<close>

definition failed :: "string \<Rightarrow> error \<Rightarrow> error" where
  "failed name err = Wrapped (name @ '' failed: '') err"

section \<open>device_security.go\<close>

text \<open>
  Modelled from the spec: the constant \<open>deviceNamespace\<close> and the result types
  \<open>RemoteUser\<close>, \<open>IPAddressFilter\<close>, \<open>PrefixedIPv4Address\<close>,
  \<open>PrefixedIPv6Address\<close>, \<open>NetworkZeroConfiguration\<close>, \<open>DynamicDNSInformation\<close>,
  \<open>PasswordComplexityConfiguration\<close>, \<open>PasswordHistoryConfiguration\<close> and
  \<open>AuthFailureWarningConfiguration\<close> are declared in files that are not under src/.
  The records below have the fields that device_security.go reads and writes; the
  string types \<open>IPAddressFilterType\<close> and \<open>DynamicDNSType\<close> are strings.
  \<open>DynamicDNSInformation\<close> has the \<open>TTL\<close> field that the comment in
  \<open>GetDynamicDNS\<close> names, a duration, which is a count of nanoseconds whose zero
  value is 0. Go's \<open>int\<close> values are only copied, never computed with, and are
  \<open>int\<close> here. A nil slice and an empty slice are both the empty list.
\<close>

definition deviceNamespace :: string where
  "deviceNamespace = ''http://www.onvif.org/ver10/device/wsdl''"

record RemoteUser =
  Username :: string
  Password :: string
  UseDerivedPassword :: bool

record PrefixedIPv4Address =
  v4_Address :: string
  v4_PrefixLength :: int

record PrefixedIPv6Address =
  v6_Address :: string
  v6_PrefixLength :: int

record IPAddressFilter =
  filter_Type :: string
  IPv4Address :: "PrefixedIPv4Address list"
  IPv6Address :: "PrefixedIPv6Address list"

record NetworkZeroConfiguration =
  InterfaceToken :: string
  Enabled :: bool
  Addresses :: "string list"

record DynamicDNSInformation =
  dns_Type :: string
  dns_Name :: string
  dns_TTL :: int

record PasswordComplexityConfiguration =
  MinLen :: int
  Uppercase :: int
  Number :: int
  SpecialChars :: int
  BlockUsernameOccurrence :: bool
  PolicyConfigurationLocked :: bool

record PasswordHistoryConfiguration =
  history_Enabled :: bool
  history_Length :: int

record AuthFailureWarningConfiguration =
  warning_Enabled :: bool
  MonitorPeriod :: int
  MaxAuthFailures :: int

subsection \<open>The XML request and response types\<close>

text \<open>
  The package-level and function-local struct types of device_security.go. The
  \<open>XMLName\<close> field of a request or response only names its element and is the name
  of the record. A request that has no field but \<open>Xmlns\<close> is the type
  \<open>xmlnsRequest\<close>, with the name of its element beside the namespace.
\<close>

record prefixedIPv4AddressXML =
  xml4_Address :: string
  xml4_PrefixLength :: int

record prefixedIPv6AddressXML =
  xml6_Address :: string
  xml6_PrefixLength :: int

record ipAddressFilterRequest =
  req_Type :: string
  req_IPv4Address :: "prefixedIPv4AddressXML list"
  req_IPv6Address :: "prefixedIPv6AddressXML list"

record xmlnsRequest =
  XMLName :: string
  Xmlns :: string

record remoteUserXML =
  xml_Username :: string
  xml_Password :: string
  xml_UseDerivedPassword :: bool

record getRemoteUserResponse =
  resp_RemoteUser :: "remoteUserXML option"

record setRemoteUserRequest =
  sru_Xmlns :: string
  sru_RemoteUser :: "remoteUserXML option"

record prefixedAddressXML =
  xml_Address :: string
  xml_PrefixLength :: int

record getIPAddressFilterResponse =
  resp_Type :: string
  resp_IPv4Address :: "prefixedAddressXML list"
  resp_IPv6Address :: "prefixedAddressXML list"

record filterRequest =
  fr_XMLName :: string
  fr_Xmlns :: string
  fr_IPAddressFilter :: ipAddressFilterRequest

record getZeroConfigurationResponse =
  resp_InterfaceToken :: string
  resp_Enabled :: bool
  resp_Addresses :: "string list"

record setZeroConfigurationRequest =
  szc_Xmlns :: string
  szc_InterfaceToken :: string
  szc_Enabled :: bool

record getDynamicDNSResponse =
  resp_dns_Type :: string
  resp_dns_Name :: string
  resp_dns_TTL :: string

record setDynamicDNSRequest =
  sdd_Xmlns :: string
  sdd_Type :: string
  sdd_Name :: string

record getPasswordComplexityConfigurationResponse =
  resp_MinLen :: int
  resp_Uppercase :: int
  resp_Number :: int
  resp_SpecialChars :: int
  resp_BlockUsernameOccurrence :: bool
  resp_PolicyConfigurationLocked :: bool

record setPasswordComplexityConfigurationRequest =
  spc_Xmlns :: string
  spc_MinLen :: int
  spc_Uppercase :: int
  spc_Number :: int
  spc_SpecialChars :: int
  spc_BlockUsernameOccurrence :: bool
  spc_PolicyConfigurationLocked :: bool

record getPasswordHistoryConfigurationResponse =
  resp_history_Enabled :: bool
  resp_history_Length :: int

record setPasswordHistoryConfigurationRequest =
  sph_Xmlns :: string
  sph_Enabled :: bool
  sph_Length :: int

record getAuthFailureWarningConfigurationResponse =
  resp_warning_Enabled :: bool
  resp_MonitorPeriod :: int
  resp_MaxAuthFailures :: int

record setAuthFailureWarningConfigurationRequest =
  saf_Xmlns :: string
  saf_Enabled :: bool
  saf_MonitorPeriod :: int
  saf_MaxAuthFailures :: int

subsection \<open>The wrappers\<close>

text \<open>
  \<open>buildIPAddressFilterRequest\<close> reads \<open>filter.Type\<close> first: on a nil \<open>filter\<close>
  it panics. Each slice is copied element by element when it is not empty.
\<close>

definition buildIPAddressFilterRequest ::
  "IPAddressFilter option \<Rightarrow> ipAddressFilterRequest outcome" where
  "buildIPAddressFilterRequest filter' =
    (case filter' of
       None \<Rightarrow> Panics
     | Some f \<Rightarrow>
         Returns
           \<lparr>req_Type = filter_Type f,
            req_IPv4Address =
              (if length (IPv4Address f) > 0
               then map (\<lambda>addr. \<lparr>xml4_Address = v4_Address addr,
                                   xml4_PrefixLength = v4_PrefixLength addr\<rparr>) (IPv4Address f)
               else []),
            req_IPv6Address =
              (if length (IPv6Address f) > 0
               then map (\<lambda>addr. \<lparr>xml6_Address = v6_Address addr,
                                   xml6_PrefixLength = v6_PrefixLength addr\<rparr>) (IPv6Address f)
               else [])\<rparr>)"

definition newSOAPClient :: "Client \<Rightarrow> soap_Client" where
  "newSOAPClient c =
    (case fst (GetCredentials c) of
       (username', password') \<Rightarrow> soap_NewClient (httpClient c) username' password')"

definition GetRemoteUser ::
  "(xmlnsRequest, getRemoteUserResponse) exchange \<Rightarrow> Client \<Rightarrow> world
     \<Rightarrow> (error + RemoteUser option) outcome \<times> world" where
  "GetRemoteUser X c w =
    (let req = \<lparr>XMLName = ''tds:GetRemoteUser'', Xmlns = deviceNamespace\<rparr> in
     case Call X (newSOAPClient c) (endpoint c) [] req True w of
       (Inl err, w') \<Rightarrow> (Returns (Inl (failed ''GetRemoteUser'' err)), w')
     | (Inr resp, w') \<Rightarrow>
         (case resp_RemoteUser resp of
            None \<Rightarrow> (Returns (Inr None), w')
          | Some ru \<Rightarrow>
              (Returns (Inr (Some \<lparr>Username = xml_Username ru,
                                    Password = xml_Password ru,
                                    UseDerivedPassword = xml_UseDerivedPassword ru\<rparr>)), w')))"

definition SetRemoteUser ::
  "(setRemoteUserRequest, unit) exchange \<Rightarrow> Client \<Rightarrow> RemoteUser option \<Rightarrow> world
     \<Rightarrow> (error + unit) outcome \<times> world" where
  "SetRemoteUser X c remoteUser w =
    (let req = \<lparr>sru_Xmlns = deviceNamespace,
                sru_RemoteUser =
                  (case remoteUser of
                     None \<Rightarrow> None
                   | Some ru \<Rightarrow> Some \<lparr>xml_Username = Username ru,
                                        xml_Password = Password ru,
                                        xml_UseDerivedPassword = UseDerivedPassword ru\<rparr>)\<rparr> in
     case Call X (newSOAPClient c) (endpoint c) [] req False w of
       (Inl err, w') \<Rightarrow> (Returns (Inl (failed ''SetRemoteUser'' err)), w')
     | (Inr u, w') \<Rightarrow> (Returns (Inr ()), w'))"

definition GetIPAddressFilter ::
  "(xmlnsRequest, getIPAddressFilterResponse) exchange \<Rightarrow> Client \<Rightarrow> world
     \<Rightarrow> (error + IPAddressFilter) outcome \<times> world" where
  "GetIPAddressFilter X c w =
    (let req = \<lparr>XMLName = ''tds:GetIPAddressFilter'', Xmlns = deviceNamespace\<rparr> in
     case Call X (newSOAPClient c) (endpoint c) [] req True w of
       (Inl err, w') \<Rightarrow> (Returns (Inl (failed ''GetIPAddressFilter'' err)), w')
     | (Inr resp, w') \<Rightarrow>
         (Returns (Inr
            \<lparr>filter_Type = resp_Type resp,
             IPv4Address =
               (if length (resp_IPv4Address resp) > 0
                then map (\<lambda>addr. \<lparr>v4_Address = xml_Address addr,
                                    v4_PrefixLength = xml_PrefixLength addr\<rparr>)
                         (resp_IPv4Address resp)
                else []),
             IPv6Address =
               (if length (resp_IPv6Address resp) > 0
                then map (\<lambda>addr. \<lparr>v6_Address = xml_Address addr,
                                    v6_PrefixLength = xml_PrefixLength addr\<rparr>)
                         (resp_IPv6Address resp)
                else [])\<rparr>), w'))"

text \<open>
  \<open>SetIPAddressFilter\<close>, \<open>AddIPAddressFilter\<close> and \<open>RemoveIPAddressFilter\<close> build
  the request with \<open>buildIPAddressFilterRequest(filter)\<close> before the SOAP client is
  created: a panic there ends the wrapper before any exchange.
\<close>

definition SetIPAddressFilter ::
  "(filterRequest, unit) exchange \<Rightarrow> Client \<Rightarrow> IPAddressFilter option \<Rightarrow> world
     \<Rightarrow> (error + unit) outcome \<times> world" where
  "SetIPAddressFilter X c filter' w =
    (case buildIPAddressFilterRequest filter' of
       Panics \<Rightarrow> (Panics, w)
     | Returns built \<Rightarrow>
         (let req = \<lparr>fr_XMLName = ''tds:SetIPAddressFilter'', fr_Xmlns = deviceNamespace,
                     fr_IPAddressFilter = built\<rparr> in
          case Call X (newSOAPClient c) (endpoint c) [] req False w of
            (Inl err, w') \<Rightarrow> (Returns (Inl (failed ''SetIPAddressFilter'' err)), w')
          | (Inr u, w') \<Rightarrow> (Returns (Inr ()), w')))"

definition AddIPAddressFilter ::
  "(filterRequest, unit) exchange \<Rightarrow> Client \<Rightarrow> IPAddressFilter option \<Rightarrow> world
     \<Rightarrow> (error + unit) outcome \<times> world" where
  "AddIPAddressFilter X c filter' w =
    (case buildIPAddressFilterRequest filter' of
       Panics \<Rightarrow> (Panics, w)
     | Returns built \<Rightarrow>
         (let req = \<lparr>fr_XMLName = ''tds:AddIPAddressFilter'', fr_Xmlns = deviceNamespace,
                     fr_IPAddressFilter = built\<rparr> in
          case Call X (newSOAPClient c) (endpoint c) [] req False w of
            (Inl err, w') \<Rightarrow> (Returns (Inl (failed ''AddIPAddressFilter'' err)), w')
          | (Inr u, w') \<Rightarrow> (Returns (Inr ()), w')))"

definition RemoveIPAddressFilter ::
  "(filterRequest, unit) exchange \<Rightarrow> Client \<Rightarrow> IPAddressFilter option \<Rightarrow> world
     \<Rightarrow> (error + unit) outcome \<times> world" where
  "RemoveIPAddressFilter X c filter' w =
    (case buildIPAddressFilterRequest filter' of
       Panics \<Rightarrow> (Panics, w)
     | Returns built \<Rightarrow>
         (let req = \<lparr>fr_XMLName = ''tds:RemoveIPAddressFilter'', fr_Xmlns = deviceNamespace,
                     fr_IPAddressFilter = built\<rparr> in
          case Call X (newSOAPClient c) (endpoint c) [] req False w of
            (Inl err, w') \<Rightarrow> (Returns (Inl (failed ''RemoveIPAddressFilter'' err)), w')
          | (Inr u, w') \<Rightarrow> (Returns (Inr ()), w')))"

definition GetZeroConfiguration ::
  "(xmlnsRequest, getZeroConfigurationResponse) exchange \<Rightarrow> Client \<Rightarrow> world
     \<Rightarrow> (error + NetworkZeroConfiguration) outcome \<times> world" where
  "GetZeroConfiguration X c w =
    (let req = \<lparr>XMLName = ''tds:GetZeroConfiguration'', Xmlns = deviceNamespace\<rparr> in
     case Call X (newSOAPClient c) (endpoint c) [] req True w of
       (Inl err, w') \<Rightarrow> (Returns (Inl (failed ''GetZeroConfiguration'' err)), w')
     | (Inr resp, w') \<Rightarrow>
         (Returns (Inr \<lparr>InterfaceToken = resp_InterfaceToken resp,
                        Enabled = resp_Enabled resp,
                        Addresses = resp_Addresses resp\<rparr>), w'))"

definition SetZeroConfiguration ::
  "(setZeroConfigurationRequest, unit) exchange \<Rightarrow> Client \<Rightarrow> string \<Rightarrow> bool \<Rightarrow> world
     \<Rightarrow> (error + unit) outcome \<times> world" where
  "SetZeroConfiguration X c interfaceToken enabled w =
    (let req = \<lparr>szc_Xmlns = deviceNamespace, szc_InterfaceToken = interfaceToken,
                szc_Enabled = enabled\<rparr> in
     case Call X (newSOAPClient c) (endpoint c) [] req False w of
       (Inl err, w') \<Rightarrow> (Returns (Inl (failed ''SetZeroConfiguration'' err)), w')
     | (Inr u, w') \<Rightarrow> (Returns (Inr ()), w'))"

text \<open>
  \<open>GetDynamicDNS\<close>: the composite literal it returns sets \<open>Type\<close> and \<open>Name\<close>;
  \<open>TTL\<close> is not mentioned in it and so has its zero value.
\<close>

definition GetDynamicDNS ::
  "(xmlnsRequest, getDynamicDNSResponse) exchange \<Rightarrow> Client \<Rightarrow> world
     \<Rightarrow> (error + DynamicDNSInformation) outcome \<times> world" where
  "GetDynamicDNS X c w =
    (let req = \<lparr>XMLName = ''tds:GetDynamicDNS'', Xmlns = deviceNamespace\<rparr> in
     case Call X (newSOAPClient c) (endpoint c) [] req True w of
       (Inl err, w') \<Rightarrow> (Returns (Inl (failed ''GetDynamicDNS'' err)), w')
     | (Inr resp, w') \<Rightarrow>
         (Returns (Inr \<lparr>dns_Type = resp_dns_Type resp,
                        dns_Name = resp_dns_Name resp,
                        dns_TTL = 0\<rparr>), w'))"

definition SetDynamicDNS ::
  "(setDynamicDNSRequest, unit) exchange \<Rightarrow> Client \<Rightarrow> string \<Rightarrow> string \<Rightarrow> world
     \<Rightarrow> (error + unit) outcome \<times> world" where
  "SetDynamicDNS X c dnsType name w =
    (let req = \<lparr>sdd_Xmlns = deviceNamespace, sdd_Type = dnsType, sdd_Name = name\<rparr> in
     case Call X (newSOAPClient c) (endpoint c) [] req False w of
       (Inl err, w') \<Rightarrow> (Returns (Inl (failed ''SetDynamicDNS'' err)), w')
     | (Inr u, w') \<Rightarrow> (Returns (Inr ()), w'))"

definition GetPasswordComplexityConfiguration ::
  "(xmlnsRequest, getPasswordComplexityConfigurationResponse) exchange \<Rightarrow> Client \<Rightarrow> world
     \<Rightarrow> (error + PasswordComplexityConfiguration) outcome \<times> world" where
  "GetPasswordComplexityConfiguration X c w =
    (let req = \<lparr>XMLName = ''tds:GetPasswordComplexityConfiguration'',
                Xmlns = deviceNamespace\<rparr> in
     case Call X (newSOAPClient c) (endpoint c) [] req True w of
       (Inl err, w') \<Rightarrow>
         (Returns (Inl (failed ''GetPasswordComplexityConfiguration'' err)), w')
     | (Inr resp, w') \<Rightarrow>
         (Returns (Inr \<lparr>MinLen = resp_MinLen resp,
                        Uppercase = resp_Uppercase resp,
                        Number = resp_Number resp,
                        SpecialChars = resp_SpecialChars resp,
                        BlockUsernameOccurrence = resp_BlockUsernameOccurrence resp,
                        PolicyConfigurationLocked = resp_PolicyConfigurationLocked resp\<rparr>),
          w'))"

text \<open>
  The three configuration setters read the fields of \<open>config\<close> while they build the
  request: on a nil \<open>config\<close> they panic there, before the SOAP client is created.
\<close>

definition SetPasswordComplexityConfiguration ::
  "(setPasswordComplexityConfigurationRequest, unit) exchange \<Rightarrow> Client
     \<Rightarrow> PasswordComplexityConfiguration option \<Rightarrow> world
     \<Rightarrow> (error + unit) outcome \<times> world" where
  "SetPasswordComplexityConfiguration X c config w =
    (case config of
       None \<Rightarrow> (Panics, w)
     | Some cfg \<Rightarrow>
         (let req = \<lparr>spc_Xmlns = deviceNamespace,
                     spc_MinLen = MinLen cfg,
                     spc_Uppercase = Uppercase cfg,
                     spc_Number = Number cfg,
                     spc_SpecialChars = SpecialChars cfg,
                     spc_BlockUsernameOccurrence = BlockUsernameOccurrence cfg,
                     spc_PolicyConfigurationLocked = PolicyConfigurationLocked cfg\<rparr> in
          case Call X (newSOAPClient c) (endpoint c) [] req False w of
            (Inl err, w') \<Rightarrow>
              (Returns (Inl (failed ''SetPasswordComplexityConfiguration'' err)), w')
          | (Inr u, w') \<Rightarrow> (Returns (Inr ()), w')))"

definition GetPasswordHistoryConfiguration ::
  "(xmlnsRequest, getPasswordHistoryConfigurationResponse) exchange \<Rightarrow> Client \<Rightarrow> world
     \<Rightarrow> (error + PasswordHistoryConfiguration) outcome \<times> world" where
  "GetPasswordHistoryConfiguration X c w =
    (let req = \<lparr>XMLName = ''tds:GetPasswordHistoryConfiguration'',
                Xmlns = deviceNamespace\<rparr> in
     case Call X (newSOAPClient c) (endpoint c) [] req True w of
       (Inl err, w') \<Rightarrow> (Returns (Inl (failed ''GetPasswordHistoryConfiguration'' err)), w')
     | (Inr resp, w') \<Rightarrow>
         (Returns (Inr \<lparr>history_Enabled = resp_history_Enabled resp,
                        history_Length = resp_history_Length resp\<rparr>), w'))"

definition SetPasswordHistoryConfiguration ::
  "(setPasswordHistoryConfigurationRequest, unit) exchange \<Rightarrow> Client
     \<Rightarrow> PasswordHistoryConfiguration option \<Rightarrow> world
     \<Rightarrow> (error + unit) outcome \<times> world" where
  "SetPasswordHistoryConfiguration X c config w =
    (case config of
       None \<Rightarrow> (Panics, w)
     | Some cfg \<Rightarrow>
         (let req = \<lparr>sph_Xmlns = deviceNamespace,
                     sph_Enabled = history_Enabled cfg,
                     sph_Length = history_Length cfg\<rparr> in
          case Call X (newSOAPClient c) (endpoint c) [] req False w of
            (Inl err, w') \<Rightarrow>
              (Returns (Inl (failed ''SetPasswordHistoryConfiguration'' err)), w')
          | (Inr u, w') \<Rightarrow> (Returns (Inr ()), w')))"

definition GetAuthFailureWarningConfiguration ::
  "(xmlnsRequest, getAuthFailureWarningConfigurationResponse) exchange \<Rightarrow> Client \<Rightarrow> world
     \<Rightarrow> (error + AuthFailureWarningConfiguration) outcome \<times> world" where
  "GetAuthFailureWarningConfiguration X c w =
    (let req = \<lparr>XMLName = ''tds:GetAuthFailureWarningConfiguration'',
                Xmlns = deviceNamespace\<rparr> in
     case Call X (newSOAPClient c) (endpoint c) [] req True w of
       (Inl err, w') \<Rightarrow>
         (Returns (Inl (failed ''GetAuthFailureWarningConfiguration'' err)), w')
     | (Inr resp, w') \<Rightarrow>
         (Returns (Inr \<lparr>warning_Enabled = resp_warning_Enabled resp,
                        MonitorPeriod = resp_MonitorPeriod resp,
                        MaxAuthFailures = resp_MaxAuthFailures resp\<rparr>), w'))"

definition SetAuthFailureWarningConfiguration ::
  "(setAuthFailureWarningConfigurationRequest, unit) exchange \<Rightarrow> Client
     \<Rightarrow> AuthFailureWarningConfiguration option \<Rightarrow> world
     \<Rightarrow> (error + unit) outcome \<times> world" where
  "SetAuthFailureWarningConfiguration X c config w =
    (case config of
       None \<Rightarrow> (Panics, w)
     | Some cfg \<Rightarrow>
         (let req = \<lparr>saf_Xmlns = deviceNamespace,
                     saf_Enabled = warning_Enabled cfg,
                     saf_MonitorPeriod = MonitorPeriod cfg,
                     saf_MaxAuthFailures = MaxAuthFailures cfg\<rparr> in
          case Call X (newSOAPClient c) (endpoint c) [] req False w of
            (Inl err, w') \<Rightarrow>
              (Returns (Inl (failed ''SetAuthFailureWarningConfiguration'' err)), w')
          | (Inr u, w') \<Rightarrow> (Returns (Inr ()), w')))"

section \<open>media.go\<close>

definition mediaNamespace :: string where
  "mediaNamespace = ''http://www.onvif.org/ver10/media/wsdl''"

text \<open>
  Modelled from the spec: the result types \<open>Profile\<close>, \<open>VideoSourceConfiguration\<close>,
  \<open>IntRectangle\<close>, \<open>VideoEncoderConfiguration\<close>, \<open>VideoResolution\<close>,
  \<open>VideoRateControl\<close> and \<open>PTZConfiguration\<close> are declared in a file that is not
  under src/. The records below have the fields that \<open>GetProfiles\<close> writes; a field
  of pointer type is an option. \<open>float64\<close> values are only copied.
\<close>

typedecl float64

record IntRectangle =
  rect_X :: int
  rect_Y :: int
  rect_Width :: int
  rect_Height :: int

record VideoSourceConfiguration =
  vsc_Token :: string
  vsc_Name :: string
  vsc_UseCount :: int
  vsc_SourceToken :: string
  vsc_Bounds :: "IntRectangle option"

record VideoResolution =
  res_Width :: int
  res_Height :: int

record VideoRateControl =
  FrameRateLimit :: int
  EncodingInterval :: int
  BitrateLimit :: int

record VideoEncoderConfiguration =
  vec_Token :: string
  vec_Name :: string
  vec_UseCount :: int
  vec_Encoding :: string
  vec_Quality :: float64
  vec_Resolution :: "VideoResolution option"
  vec_RateControl :: "VideoRateControl option"

record PTZConfiguration =
  ptz_Token :: string
  ptz_Name :: string
  ptz_UseCount :: int
  ptz_NodeToken :: string

record Profile =
  profile_Token :: string
  profile_Name :: string
  profile_VideoSourceConfiguration :: "VideoSourceConfiguration option"
  profile_VideoEncoderConfiguration :: "VideoEncoderConfiguration option"
  profile_PTZConfiguration :: "PTZConfiguration option"

text \<open>The anonymous struct types inside \<open>GetProfilesResponse\<close>, outermost last.\<close>

record xmlBounds =
  xml_X :: int
  xml_Y :: int
  xml_Width :: int
  xml_Height :: int

record xmlVideoSourceConfiguration =
  xml_vsc_Token :: string
  xml_vsc_Name :: string
  xml_vsc_UseCount :: int
  xml_vsc_SourceToken :: string
  xml_vsc_Bounds :: "xmlBounds option"

record xmlResolution =
  xml_res_Width :: int
  xml_res_Height :: int

record xmlRateControl =
  xml_FrameRateLimit :: int
  xml_EncodingInterval :: int
  xml_BitrateLimit :: int

record xmlVideoEncoderConfiguration =
  xml_vec_Token :: string
  xml_vec_Name :: string
  xml_vec_UseCount :: int
  xml_vec_Encoding :: string
  xml_vec_Resolution :: "xmlResolution option"
  xml_vec_Quality :: float64
  xml_vec_RateControl :: "xmlRateControl option"

record xmlPTZConfiguration =
  xml_ptz_Token :: string
  xml_ptz_Name :: string
  xml_ptz_UseCount :: int
  xml_ptz_NodeToken :: string

record xmlProfile =
  xml_profile_Token :: string
  xml_profile_Name :: string
  xml_VideoSourceConfiguration :: "xmlVideoSourceConfiguration option"
  xml_VideoEncoderConfiguration :: "xmlVideoEncoderConfiguration option"
  xml_PTZConfiguration :: "xmlPTZConfiguration option"

record GetProfilesResponse =
  resp_Profiles :: "xmlProfile list"

text \<open>
  The endpoint every wrapper of media.go starts with: the media endpoint, or the device
  endpoint while the media endpoint is empty.
\<close>

definition media_endpoint :: "Client \<Rightarrow> string" where
  "media_endpoint c = (if mediaEndpoint c = [] then endpoint c else mediaEndpoint c)"

text \<open>The body of the loop of \<open>GetProfiles\<close>: the profile built from \<open>p\<close>.\<close>

definition GetProfiles_profile :: "xmlProfile \<Rightarrow> Profile" where
  "GetProfiles_profile p =
    \<lparr>profile_Token = xml_profile_Token p,
     profile_Name = xml_profile_Name p,
     profile_VideoSourceConfiguration =
       (case xml_VideoSourceConfiguration p of
          None \<Rightarrow> None
        | Some v \<Rightarrow>
            Some \<lparr>vsc_Token = xml_vsc_Token v,
                  vsc_Name = xml_vsc_Name v,
                  vsc_UseCount = xml_vsc_UseCount v,
                  vsc_SourceToken = xml_vsc_SourceToken v,
                  vsc_Bounds =
                    (case xml_vsc_Bounds v of
                       None \<Rightarrow> None
                     | Some b \<Rightarrow> Some \<lparr>rect_X = xml_X b, rect_Y = xml_Y b,
                                         rect_Width = xml_Width b,
                                         rect_Height = xml_Height b\<rparr>)\<rparr>),
     profile_VideoEncoderConfiguration =
       (case xml_VideoEncoderConfiguration p of
          None \<Rightarrow> None
        | Some v \<Rightarrow>
            Some \<lparr>vec_Token = xml_vec_Token v,
                  vec_Name = xml_vec_Name v,
                  vec_UseCount = xml_vec_UseCount v,
                  vec_Encoding = xml_vec_Encoding v,
                  vec_Quality = xml_vec_Quality v,
                  vec_Resolution =
                    (case xml_vec_Resolution v of
                       None \<Rightarrow> None
                     | Some r \<Rightarrow> Some \<lparr>res_Width = xml_res_Width r,
                                         res_Height = xml_res_Height r\<rparr>),
                  vec_RateControl =
                    (case xml_vec_RateControl v of
                       None \<Rightarrow> None
                     | Some r \<Rightarrow> Some \<lparr>FrameRateLimit = xml_FrameRateLimit r,
                                         EncodingInterval = xml_EncodingInterval r,
                                         BitrateLimit = xml_BitrateLimit r\<rparr>)\<rparr>),
     profile_PTZConfiguration =
       (case xml_PTZConfiguration p of
          None \<Rightarrow> None
        | Some v \<Rightarrow>
            Some \<lparr>ptz_Token = xml_ptz_Token v,
                  ptz_Name = xml_ptz_Name v,
                  ptz_UseCount = xml_ptz_UseCount v,
                  ptz_NodeToken = xml_ptz_NodeToken v\<rparr>)\<rparr>"

text \<open>
  \<open>GetProfiles\<close> reads the credentials and creates the SOAP client itself, as every
  wrapper of media.go does, and fills \<open>profiles[i]\<close> from \<open>resp.Profiles[i]\<close>.
\<close>

definition GetProfiles ::
  "(xmlnsRequest, GetProfilesResponse) exchange \<Rightarrow> Client \<Rightarrow> world
     \<Rightarrow> (error + Profile list) outcome \<times> world" where
  "GetProfiles X c w =
    (let endpoint' = media_endpoint c;
         req = \<lparr>XMLName = ''trt:GetProfiles'', Xmlns = mediaNamespace\<rparr> in
     case fst (GetCredentials c) of
       (username', password') \<Rightarrow>
         (let soapClient = soap_NewClient (httpClient c) username' password' in
          case Call X soapClient endpoint' [] req True w of
            (Inl err, w') \<Rightarrow> (Returns (Inl (failed ''GetProfiles'' err)), w')
          | (Inr resp, w') \<Rightarrow>
              (Returns (Inr (map GetProfiles_profile (resp_Profiles resp))), w')))"

subsection \<open>The other wrappers of media.go\<close>

text \<open>
  The other 47 wrappers of media.go have the statements of \<open>GetProfiles\<close> in the same
  order: pick the endpoint, build the request from the arguments, read the credentials,
  create the SOAP client, issue the one \<open>Call\<close>, return the wrapped error if it failed,
  and otherwise convert the response. They differ in the request they build, in the name
  they put in the error, in whether they pass a response target, and in the conversion.
  \<open>media_wrapper\<close> is that common body. The request as built (or the panic of building
  it, for the six wrappers that read a field of a pointer argument without a nil check)
  and the conversion of the response (which may panic) are its parameters; the name and
  the target of each wrapper are tabulated from the source below.
\<close>

definition media_wrapper ::
  "string \<Rightarrow> bool \<Rightarrow> ('q, 'r) exchange \<Rightarrow> Client \<Rightarrow> 'q outcome \<Rightarrow> ('r \<Rightarrow> 'a outcome) \<Rightarrow> world
     \<Rightarrow> (error + 'a) outcome \<times> world" where
  "media_wrapper name target X c build convert w =
    (let endpoint' = media_endpoint c in
     case build of
       Panics \<Rightarrow> (Panics, w)
     | Returns req \<Rightarrow>
         (case fst (GetCredentials c) of
            (username', password') \<Rightarrow>
              (let soapClient = soap_NewClient (httpClient c) username' password' in
               case Call X soapClient endpoint' [] req target w of
                 (Inl err, w') \<Rightarrow> (Returns (Inl (failed name err)), w')
               | (Inr resp, w') \<Rightarrow>
                   (case convert resp of
                      Panics \<Rightarrow> (Panics, w')
                    | Returns v \<Rightarrow> (Returns (Inr v), w')))))"

datatype media_operation =
    GetStreamURI | GetSnapshotURI | GetVideoEncoderConfiguration | GetVideoSources
  | GetAudioSources | GetAudioOutputs | CreateProfile | DeleteProfile
  | SetVideoEncoderConfiguration | GetMediaServiceCapabilities
  | GetVideoEncoderConfigurationOptions | GetAudioEncoderConfiguration
  | SetAudioEncoderConfiguration | GetMetadataConfiguration | SetMetadataConfiguration
  | GetVideoSourceModes | SetVideoSourceMode | SetSynchronizationPoint | GetOSDs | GetOSD
  | SetOSD | CreateOSD | DeleteOSD | StartMulticastStreaming | StopMulticastStreaming
  | GetProfile | SetProfile | AddVideoEncoderConfiguration | RemoveVideoEncoderConfiguration
  | AddAudioEncoderConfiguration | RemoveAudioEncoderConfiguration
  | AddAudioSourceConfiguration | RemoveAudioSourceConfiguration
  | AddVideoSourceConfiguration | RemoveVideoSourceConfiguration | AddPTZConfiguration
  | RemovePTZConfiguration | AddMetadataConfiguration | RemoveMetadataConfiguration
  | GetAudioEncoderConfigurationOptions | GetMetadataConfigurationOptions
  | GetAudioOutputConfiguration | SetAudioOutputConfiguration
  | GetAudioOutputConfigurationOptions | GetAudioDecoderConfigurationOptions
  | GetGuaranteedNumberOfVideoEncoderInstances | GetOSDOptions

text \<open>The name each wrapper puts in front of \<open>" failed: "\<close>.\<close>

fun media_name :: "media_operation \<Rightarrow> string" where
  "media_name GetStreamURI = ''GetStreamUri''"
| "media_name GetSnapshotURI = ''GetSnapshotUri''"
| "media_name GetVideoEncoderConfiguration = ''GetVideoEncoderConfiguration''"
| "media_name GetVideoSources = ''GetVideoSources''"
| "media_name GetAudioSources = ''GetAudioSources''"
| "media_name GetAudioOutputs = ''GetAudioOutputs''"
| "media_name CreateProfile = ''CreateProfile''"
| "media_name DeleteProfile = ''DeleteProfile''"
| "media_name SetVideoEncoderConfiguration = ''SetVideoEncoderConfiguration''"
| "media_name GetMediaServiceCapabilities = ''GetMediaServiceCapabilities''"
| "media_name GetVideoEncoderConfigurationOptions = ''GetVideoEncoderConfigurationOptions''"
| "media_name GetAudioEncoderConfiguration = ''GetAudioEncoderConfiguration''"
| "media_name SetAudioEncoderConfiguration = ''SetAudioEncoderConfiguration''"
| "media_name GetMetadataConfiguration = ''GetMetadataConfiguration''"
| "media_name SetMetadataConfiguration = ''SetMetadataConfiguration''"
| "media_name GetVideoSourceModes = ''GetVideoSourceModes''"
| "media_name SetVideoSourceMode = ''SetVideoSourceMode''"
| "media_name SetSynchronizationPoint = ''SetSynchronizationPoint''"
| "media_name GetOSDs = ''GetOSDs''"
| "media_name GetOSD = ''GetOSD''"
| "media_name SetOSD = ''SetOSD''"
| "media_name CreateOSD = ''CreateOSD''"
| "media_name DeleteOSD = ''DeleteOSD''"
| "media_name StartMulticastStreaming = ''StartMulticastStreaming''"
| "media_name StopMulticastStreaming = ''StopMulticastStreaming''"
| "media_name GetProfile = ''GetProfile''"
| "media_name SetProfile = ''SetProfile''"
| "media_name AddVideoEncoderConfiguration = ''AddVideoEncoderConfiguration''"
| "media_name RemoveVideoEncoderConfiguration = ''RemoveVideoEncoderConfiguration''"
| "media_name AddAudioEncoderConfiguration = ''AddAudioEncoderConfiguration''"
| "media_name RemoveAudioEncoderConfiguration = ''RemoveAudioEncoderConfiguration''"
| "media_name AddAudioSourceConfiguration = ''AddAudioSourceConfiguration''"
| "media_name RemoveAudioSourceConfiguration = ''RemoveAudioSourceConfiguration''"
| "media_name AddVideoSourceConfiguration = ''AddVideoSourceConfiguration''"
| "media_name RemoveVideoSourceConfiguration = ''RemoveVideoSourceConfiguration''"
| "media_name AddPTZConfiguration = ''AddPTZConfiguration''"
| "media_name RemovePTZConfiguration = ''RemovePTZConfiguration''"
| "media_name AddMetadataConfiguration = ''AddMetadataConfiguration''"
| "media_name RemoveMetadataConfiguration = ''RemoveMetadataConfiguration''"
| "media_name GetAudioEncoderConfigurationOptions = ''GetAudioEncoderConfigurationOptions''"
| "media_name GetMetadataConfigurationOptions = ''GetMetadataConfigurationOptions''"
| "media_name GetAudioOutputConfiguration = ''GetAudioOutputConfiguration''"
| "media_name SetAudioOutputConfiguration = ''SetAudioOutputConfiguration''"
| "media_name GetAudioOutputConfigurationOptions = ''GetAudioOutputConfigurationOptions''"
| "media_name GetAudioDecoderConfigurationOptions = ''GetAudioDecoderConfigurationOptions''"
| "media_name GetGuaranteedNumberOfVideoEncoderInstances =
     ''GetGuaranteedNumberOfVideoEncoderInstances''"
| "media_name GetOSDOptions = ''GetOSDOptions''"

text \<open>Whether the wrapper passes \<open>&resp\<close> (true) or \<open>nil\<close> (false) to \<open>Call\<close>.\<close>

definition media_target :: "media_operation \<Rightarrow> bool" where
  "media_target op \<longleftrightarrow>
     op \<notin> {DeleteProfile, SetVideoEncoderConfiguration, SetAudioEncoderConfiguration,
            SetMetadataConfiguration, SetVideoSourceMode, SetSynchronizationPoint, SetOSD,
            DeleteOSD, StartMulticastStreaming, StopMulticastStreaming, SetProfile,
            AddVideoEncoderConfiguration, RemoveVideoEncoderConfiguration,
            AddAudioEncoderConfiguration, RemoveAudioEncoderConfiguration,
            AddAudioSourceConfiguration, RemoveAudioSourceConfiguration,
            AddVideoSourceConfiguration, RemoveVideoSourceConfiguration,
            AddPTZConfiguration, RemovePTZConfiguration, AddMetadataConfiguration,
            RemoveMetadataConfiguration, SetAudioOutputConfiguration}"

text \<open>
  The wrappers that read a field of a pointer argument while they build the request,
  with no nil check before: with a nil argument the request they build is a panic.
  (\<open>CreateOSD\<close> checks \<open>osd != nil\<close> first.)
\<close>

definition media_dereferences :: "media_operation \<Rightarrow> bool" where
  "media_dereferences op \<longleftrightarrow>
     op \<in> {SetVideoEncoderConfiguration, SetAudioEncoderConfiguration,
            SetMetadataConfiguration, SetOSD, SetProfile, SetAudioOutputConfiguration}"

text \<open>
  A wrapper of the table run on an argument that is nil or not: \<open>request\<close> is the
  request it builds from a non-nil argument.
\<close>

definition media_call ::
  "media_operation \<Rightarrow> ('q, 'r) exchange \<Rightarrow> Client \<Rightarrow> bool \<Rightarrow> 'q \<Rightarrow> ('r \<Rightarrow> 'a outcome) \<Rightarrow> world
     \<Rightarrow> (error + 'a) outcome \<times> world" where
  "media_call op X c nil_argument request convert w =
    media_wrapper (media_name op) (media_target op) X c
      (if media_dereferences op \<and> nil_argument then Panics else Returns request)
      convert w"

section \<open>The envelope codec\<close>

text \<open>
  Modelled from the spec: the envelope codec is part of internal/soap, which is not under
  src/. Spec 4.1 gives its contract, \<open>decode(envelopeBytes, responseTarget)\<close> failing
  with a \<open>FaultError\<close>, a \<open>DecodeError\<close> or nil: decoding first inspects the root
  element of the body; if it matches the Fault element of the protocol's envelope
  version, decoding stops and \<open>FaultError{code, reason}\<close> is returned; otherwise the
  body is deserialized into the caller's target, and a nil target accepts any body
  without error. The spec leaves to the protocol which element is the Fault element, how
  code and reason are read from it and how a body is deserialized into a target: these
  are the fields of \<open>codec\<close>. \<open>decode\<close> returns the error (\<open>None\<close> for nil) and the
  target as it leaves it.
\<close>

record xml_name =
  Space :: string
  Local :: string

datatype xml = Element xml_name "xml list" | CharData string

fun root_name :: "xml \<Rightarrow> xml_name option" where
  "root_name (Element n children) = Some n"
| "root_name (CharData s) = None"

record 't codec =
  fault_element :: xml_name
  fault_code :: "xml \<Rightarrow> string"
  fault_reason :: "xml \<Rightarrow> string"
  deserialize :: "xml \<Rightarrow> 't \<Rightarrow> string option \<times> 't"

definition decode :: "'t codec \<Rightarrow> xml \<Rightarrow> 't option \<Rightarrow> error option \<times> 't option" where
  "decode cd body target =
    (if root_name body = Some (fault_element cd)
     then (Some (FaultError (fault_code cd body) (fault_reason cd body)), target)
     else case target of
            None \<Rightarrow> (None, None)
          | Some t \<Rightarrow>
              (case deserialize cd body t of
                 (Some msg, t') \<Rightarrow> (Some (DecodeError msg), Some t')
               | (None, t') \<Rightarrow> (None, Some t')))"

text \<open>
  The HTTP response of an exchange: its status and the root element of the body of its
  envelope. \<open>decode\<close> is given the body alone (spec 4.1, 4.3).
\<close>

record http_response =
  StatusCode :: nat
  Body :: xml

section \<open>The merge of the discovery engine\<close>

text \<open>
  Modelled from the spec: the discovery engine is in the package discovery, of which
  only documentation is under src/. Spec 3 gives the \<open>Device\<close> record, whose identity
  is its endpoint reference, and the invariant that a Probe Match that cannot be parsed
  into at least an endpoint reference is dropped; spec 4.5 (MERGE) and 5 give the
  collector: one collection keyed by endpoint reference, filled under mutual exclusion
  by the listeners of all interfaces, taking the first-seen record per key. A reply is
  the device it parses into, or \<open>None\<close> when it cannot be parsed; the mutual exclusion
  makes the replies of all interfaces reach the collector one after the other, in the
  order of the list \<open>arrivals\<close>. The collector keeps its entries in the order of their
  insertion; the device set returned is the set of its entries.
\<close>

record Device =
  endpointReference :: string
  device_name :: "string option"
  types :: "string list"
  scopes :: "string list"
  xAddrs :: "string list"

fun collect :: "Device list \<Rightarrow> Device option list \<Rightarrow> Device list" where
  "collect seen [] = seen"
| "collect seen (None # arrivals) = collect seen arrivals"
| "collect seen (Some d # arrivals) =
     (if endpointReference d \<in> set (map endpointReference seen)
      then collect seen arrivals
      else collect (seen @ [d]) arrivals)"

definition merge :: "Device option list \<Rightarrow> Device list" where
  "merge arrivals = collect [] arrivals"

text \<open>The first reply of \<open>arrivals\<close> that carries the endpoint reference \<open>k\<close>.\<close>

definition first_seen :: "string \<Rightarrow> Device option list \<Rightarrow> Device option option" where
  "first_seen k arrivals = find (\<lambda>r. map_option endpointReference r = Some k) arrivals"

text \<open>
  Devices for the examples: \<open>camera_Y_again\<close> is the device of \<open>camera_Y\<close>, by its
  endpoint reference, as a second interface sees it, under another address.
\<close>

definition camera :: "string \<Rightarrow> string \<Rightarrow> Device" where
  "camera ref addr =
    \<lparr>endpointReference = ref, device_name = None,
     types = [''dn:NetworkVideoTransmitter''], scopes = [], xAddrs = [addr]\<rparr>"

definition camera_X :: Device where
  "camera_X = camera ''urn:uuid:x'' ''http://192.168.1.10/onvif/device_service''"

definition camera_Y :: Device where
  "camera_Y = camera ''urn:uuid:y'' ''http://192.168.1.11/onvif/device_service''"

definition camera_Y_again :: Device where
  "camera_Y_again = camera ''urn:uuid:y'' ''http://10.0.0.11/onvif/device_service''"

definition camera_Z :: Device where
  "camera_Z = camera ''urn:uuid:z'' ''http://10.0.0.12/onvif/device_service''"

section \<open>The WS-Security password digest\<close>

text \<open>
  Modelled from the spec: the WS-Security signer is part of internal/soap, which is not
  under src/. Spec 3 and 4.2 fix the digest of a UsernameToken as
  \<open>base64(SHA1(nonce ++ created ++ password))\<close>, the three byte strings concatenated
  in that order with no separators. SHA-1 is the function of FIPS 180-4 and base64 the
  encoding of RFC 4648, as in Go's \<open>crypto/sha1\<close> and \<open>encoding/base64\<close>. They are
  written out here on bytes and 32-bit words that are natural numbers, with the
  wrap-around of 32-bit addition and rotation written out. The message is padded to
  whole blocks of 16 words; every block runs the 80 rounds over a window of 16 schedule
  words.
\<close>

type_synonym byte = nat
type_synonym word32 = nat

definition add32 :: "word32 \<Rightarrow> word32 \<Rightarrow> word32" where
  "add32 x y = (x + y) mod 2 ^ 32"

definition rotl :: "nat \<Rightarrow> word32 \<Rightarrow> word32" where
  "rotl n x = (x * 2 ^ n) mod 2 ^ 32 OR x div 2 ^ (32 - n)"

definition not32 :: "word32 \<Rightarrow> word32" where
  "not32 x = x XOR 0xFFFFFFFF"

definition length_bytes :: "nat \<Rightarrow> byte list" where
  "length_bytes n =
     map (\<lambda>i. (8 * n) div 2 ^ (8 * i) mod 256) [7, 6, 5, 4, 3, 2, 1, 0]"

definition sha1_pad :: "byte list \<Rightarrow> byte list" where
  "sha1_pad msg =
     msg @ [0x80] @ replicate ((119 - length msg mod 64) mod 64) 0 @ length_bytes (length msg)"

fun be32 :: "byte list \<Rightarrow> word32 list" where
  "be32 (a # b # c # d # bs) = (a * 2 ^ 24 + b * 2 ^ 16 + c * 2 ^ 8 + d) # be32 bs"
| "be32 _ = []"

type_synonym sha1_state = "word32 \<times> word32 \<times> word32 \<times> word32 \<times> word32"

definition sha1_f :: "nat \<Rightarrow> word32 \<Rightarrow> word32 \<Rightarrow> word32 \<Rightarrow> word32" where
  "sha1_f t b c d =
     (if t < 20 then (b AND c) OR (not32 b AND d)
      else if t < 40 then b XOR c XOR d
      else if t < 60 then (b AND c) OR (b AND d) OR (c AND d)
      else b XOR c XOR d)"

definition sha1_K :: "nat \<Rightarrow> word32" where
  "sha1_K t =
     (if t < 20 then 0x5A827999 else if t < 40 then 0x6ED9EBA1
      else if t < 60 then 0x8F1BBCDC else 0xCA62C1D6)"

function sha1_rounds :: "nat \<Rightarrow> word32 list \<Rightarrow> sha1_state \<Rightarrow> sha1_state" where
  "sha1_rounds t w (a, b, c, d, e) =
     (if t < 80
      then sha1_rounds (t + 1)
             (tl w @ [rotl 1 (w ! 13 XOR w ! 8 XOR w ! 2 XOR w ! 0)])
             (add32 (add32 (add32 (add32 (rotl 5 a) (sha1_f t b c d)) e) (sha1_K t)) (w ! 0),
              a, rotl 30 b, c, d)
      else (a, b, c, d, e))"
  by pat_completeness auto
termination
  by (relation "measure (\<lambda>(t, w, s). 80 - t)") auto

declare sha1_rounds.simps [simp del]

definition sha1_block :: "sha1_state \<Rightarrow> word32 list \<Rightarrow> sha1_state" where
  "sha1_block h w =
     (case h of (h0, h1, h2, h3, h4) \<Rightarrow>
        case sha1_rounds 0 w h of (a, b, c, d, e) \<Rightarrow>
          (add32 h0 a, add32 h1 b, add32 h2 c, add32 h3 d, add32 h4 e))"

fun sha1_blocks :: "sha1_state \<Rightarrow> word32 list \<Rightarrow> sha1_state" where
  "sha1_blocks h ws = (if length ws < 16 then h else sha1_blocks (sha1_block h (take 16 ws)) (drop 16 ws))"

declare sha1_blocks.simps [simp del]

definition word32_bytes :: "word32 \<Rightarrow> byte list" where
  "word32_bytes x = [x div 2 ^ 24, x div 2 ^ 16 mod 256, x div 2 ^ 8 mod 256, x mod 256]"

definition SHA1 :: "byte list \<Rightarrow> byte list" where
  "SHA1 msg =
     (case sha1_blocks (0x67452301, 0xEFCDAB89, 0x98BADCFE, 0x10325476, 0xC3D2E1F0)
             (be32 (sha1_pad msg)) of
        (h0, h1, h2, h3, h4) \<Rightarrow> concat (map word32_bytes [h0, h1, h2, h3, h4]))"

definition bytes_of :: "string \<Rightarrow> byte list" where
  "bytes_of s = map of_char s"

definition base64_alphabet :: string where
  "base64_alphabet = ''ABCDEFGHIJKLMNOPQRSTUVWXYZabcdefghijklmnopqrstuvwxyz0123456789+/''"

fun base64 :: "byte list \<Rightarrow> string" where
  "base64 (a # b # c # bs) =
     [base64_alphabet ! (a div 4),
      base64_alphabet ! (a mod 4 * 16 + b div 16),
      base64_alphabet ! (b mod 16 * 4 + c div 64),
      base64_alphabet ! (c mod 64)] @ base64 bs"
| "base64 [a, b] =
     [base64_alphabet ! (a div 4),
      base64_alphabet ! (a mod 4 * 16 + b div 16),
      base64_alphabet ! (b mod 16 * 4),
      CHR ''='']"
| "base64 [a] =
     [base64_alphabet ! (a div 4), base64_alphabet ! (a mod 4 * 16), CHR ''='', CHR ''='']"
| "base64 [] = []"

definition passwordDigest :: "byte list \<Rightarrow> byte list \<Rightarrow> byte list \<Rightarrow> string" where
  "passwordDigest nonce created password' = base64 (SHA1 (nonce @ created @ password'))"

definition example_nonce :: "byte list" where
  "example_nonce = [44, 170, 136, 232, 111, 192, 138, 66, 130, 66, 179, 116, 206, 166, 69, 150]"

section \<open>What a wrapper does to the world\<close>

text \<open>
  \<open>issues n f\<close>: from every world, the run \<open>f\<close> of a wrapper leaves the exchanges
  that were there as they were and adds exactly \<open>n\<close> new ones.
\<close>

definition issues :: "nat \<Rightarrow> (world \<Rightarrow> 'a \<times> world) \<Rightarrow> bool" where
  "issues n f \<longleftrightarrow> (\<forall>w. \<exists>new. snd (f w) = w @ new \<and> length new = n)"


text \<open>A client and two devices for the examples.\<close>

definition example_client :: Client where
  "example_client =
    \<lparr>endpoint = ''http://192.168.1.100/onvif/device_service'', username = ''admin'',
     password = ''secret'',
     httpClient = Some \<lparr>Transport = None, Timeout = 30 * Second\<rparr>,
     mediaEndpoint = [], ptzEndpoint = [],
     imagingEndpoint = [], eventEndpoint = []\<rparr>"

definition refusing :: "('q, 'r) exchange" where
  "refusing w p req = Inl (TransportError ''connection refused'')"

definition answering :: "'r \<Rightarrow> ('q, 'r) exchange" where
  "answering resp w p req = Inr resp"

section \<open>Credentials: write then read\<close>

text \<open>
  C4. For every client \<open>c\<close> and all strings \<open>u\<close>, \<open>p\<close>: after
  \<open>c.SetCredentials(u, p)\<close>, with no credential write in between,
  \<open>c.GetCredentials()\<close> returns exactly \<open>(u, p)\<close>; and \<open>GetCredentials\<close> leaves
  every client, whatever its state, exactly as it found it.
\<close>

theorem SetCredentials_GetCredentials:
  "fst (GetCredentials (SetCredentials u p c)) = (u, p)
   \<and> snd (GetCredentials c') = c'"
  by (simp add: GetCredentials_def SetCredentials_def)

section \<open>The endpoint formats\<close>

lemma unreserved_not_special:
  "unreserved c \<Longrightarrow>
     c \<noteq> CHR ''#'' \<and> c \<noteq> CHR ''?'' \<and> c \<noteq> CHR ''/'' \<and> c \<noteq> CHR ''@'' \<and> c \<noteq> CHR ''%''
     \<and> c \<noteq> CHR '':'' \<and> c \<noteq> CHR ''+'' \<and> c \<noteq> CHR ''['' \<and> c \<noteq> CHR ''*''
     \<and> \<not> (of_char c :: nat) < 32 \<and> (of_char c :: nat) \<noteq> 127"
  by (auto simp: unreserved_def isLetter_def isDigit_def)

lemma digit_unreserved: "isDigit c \<Longrightarrow> unreserved c"
  by (simp add: unreserved_def)

lemma unreserved_not_escaped:
  assumes "unreserved c"
  shows "\<not> shouldEscape c mode"
proof (cases "isLetter c \<or> isDigit c")
  case True
  then show ?thesis by (simp add: shouldEscape_def)
next
  case False
  with assms have "c \<in> set ''-_.~''" by (simp add: unreserved_def)
  with False show ?thesis by (simp add: shouldEscape_def)
qed

lemma slash_not_escaped: "\<not> shouldEscape (CHR ''/'') encodePath"
  by (simp add: shouldEscape_def isLetter_def isDigit_def)

lemma colon_not_escaped: "\<not> shouldEscape (CHR '':'') encodeHost"
  by (simp add: shouldEscape_def isLetter_def isDigit_def)

lemma Cut_absent: "sep \<notin> set s \<Longrightarrow> Cut s sep = (s, [], False)"
  by (simp add: Cut_def)

lemma LastIndex_absent: "sep \<notin> set s \<Longrightarrow> LastIndex s sep = None"
  by (simp add: LastIndex_def)

lemma LastIndex_last:
  assumes "sep \<notin> set ds"
  shows "LastIndex (name @ sep # ds) sep = Some (length name)"
proof -
  from assms have "takeWhile (\<lambda>c. c \<noteq> sep) (rev ds @ sep # rev name) = rev ds"
    by (auto simp: takeWhile_tail takeWhile_eq_all_conv)
  then show ?thesis by (simp add: LastIndex_def)
qed

lemma escape_unchanged:
  "list_all (\<lambda>c. \<not> shouldEscape c mode) s \<Longrightarrow> escape s mode = s"
  by (induction s) (simp_all add: escape_def)

lemma unescape_check_plain:
  "list_all (\<lambda>c. c \<noteq> CHR ''%'' \<and> \<not> shouldEscape c encodeHost) s
   \<Longrightarrow> unescape_check mode s = None"
  by (induction s) auto

lemma unescape_check_path:
  "CHR ''%'' \<notin> set s \<Longrightarrow> unescape_check encodePath s = None"
  by (induction s) auto

lemma unescape_decode_plain:
  "CHR ''%'' \<notin> set s \<Longrightarrow> CHR ''+'' \<notin> set s \<Longrightarrow> unescape_decode mode s = s"
  by (induction s) auto


lemma host_char_ok:
  "unreserved c \<or> c = CHR '':'' \<Longrightarrow> c \<noteq> CHR ''%'' \<and> \<not> shouldEscape c encodeHost"
  using unreserved_not_special [of c] unreserved_not_escaped [of c encodeHost]
    colon_not_escaped
  by blast

lemma unescape_host:
  assumes "list_all (\<lambda>c. unreserved c \<or> c = CHR '':'') s"
  shows "unescape s encodeHost = Inr s"
proof -
  have ok: "list_all (\<lambda>c. c \<noteq> CHR ''%'' \<and> \<not> shouldEscape c encodeHost) s"
    unfolding list_all_iff
  proof
    fix c assume "c \<in> set s"
    with assms have "unreserved c \<or> c = CHR '':''" by (simp add: list_all_iff)
    then show "c \<noteq> CHR ''%'' \<and> \<not> shouldEscape c encodeHost" by (rule host_char_ok)
  qed
  from assms have "CHR ''%'' \<notin> set s" "CHR ''+'' \<notin> set s"
    by (auto simp: list_all_iff unreserved_def isLetter_def isDigit_def)
  with ok show ?thesis
    by (simp add: unescape_def unescape_check_plain unescape_decode_plain)
qed

lemma unescape_path:
  assumes "list_all (\<lambda>c. unreserved c \<or> c = CHR ''/'') s"
  shows "unescape s encodePath = Inr s"
proof -
  from assms have "CHR ''%'' \<notin> set s" "CHR ''+'' \<notin> set s"
    by (auto simp: list_all_iff unreserved_def isLetter_def isDigit_def)
  then show ?thesis
    by (simp add: unescape_def unescape_check_path unescape_decode_plain)
qed

lemma escape_host:
  assumes "list_all (\<lambda>c. unreserved c \<or> c = CHR '':'') s"
  shows "escape s encodeHost = s"
proof (rule escape_unchanged, unfold list_all_iff, rule ballI)
  fix c assume "c \<in> set s"
  with assms have "unreserved c \<or> c = CHR '':''" by (simp add: list_all_iff)
  then show "\<not> shouldEscape c encodeHost"
    using unreserved_not_escaped [of c encodeHost] colon_not_escaped by blast
qed

lemma escape_path:
  assumes "list_all (\<lambda>c. unreserved c \<or> c = CHR ''/'') s"
  shows "escape s encodePath = s"
proof (rule escape_unchanged, unfold list_all_iff, rule ballI)
  fix c assume "c \<in> set s"
  with assms have "unreserved c \<or> c = CHR ''/''" by (simp add: list_all_iff)
  then show "\<not> shouldEscape c encodePath"
    using unreserved_not_escaped [of c encodePath] slash_not_escaped by blast
qed

lemma port_chars:
  assumes "validOptionalPort port"
  shows "list_all (\<lambda>c. unreserved c \<or> c = CHR '':'') port"
proof (cases port)
  case Nil
  then show ?thesis by simp
next
  case (Cons c ds)
  with assms show ?thesis
    by (auto simp: validOptionalPort_def list_all_iff digit_unreserved)
qed

lemma parseHost_plain:
  assumes name: "plain_name name" and port: "validOptionalPort port"
  shows "parseHost (name @ port) = Inr (name @ port)"
proof -
  from name have chars: "list_all (\<lambda>c. unreserved c \<or> c = CHR '':'') (name @ port)"
    using port_chars [OF port] by (simp add: plain_name_def list_all_iff) blast
  from name obtain c cs where cons: "name = c # cs" and c: "unreserved c"
    by (cases name) (auto simp: plain_name_def)
  then have no_bracket: "\<not> HasPrefix (name @ port) ''[''"
    using unreserved_not_special [of c] by (simp add: HasPrefix_def)
  from name have no_colon: "CHR '':'' \<notin> set name"
    by (auto simp: plain_name_def list_all_iff unreserved_def isLetter_def isDigit_def)
  show ?thesis
  proof (cases port)
    case Nil
    with no_bracket no_colon chars show ?thesis
      by (simp add: parseHost_def LastIndex_absent unescape_host)
  next
    case (Cons d ds)
    with port have d: "d = CHR '':''" and ds: "list_all isDigit ds"
      by (simp_all add: validOptionalPort_def)
    from ds have "CHR '':'' \<notin> set ds"
      by (auto simp: list_all_iff isDigit_def)
    then have "LastIndex (name @ port) CHR '':'' = Some (length name)"
      unfolding Cons d by (rule LastIndex_last)
    with no_bracket port chars show ?thesis
      by (simp add: parseHost_def unescape_host)
  qed
qed

lemma parseAuthority_plain:
  assumes name: "plain_name name" and port: "validOptionalPort port"
  shows "parseAuthority (name @ port) = Inr (None, name @ port)"
proof -
  have "CHR ''@'' \<notin> set (name @ port)"
    using name port_chars [OF port]
    by (auto simp: plain_name_def list_all_iff unreserved_def isLetter_def isDigit_def)
  then show ?thesis
    by (simp add: parseAuthority_def LastIndex_absent parseHost_plain [OF name port])
qed


lemma plain_rest_chars:
  assumes "plain_name name" and "validOptionalPort port" and "plain_path p"
  shows "list_all (\<lambda>c. unreserved c \<or> c = CHR '':'' \<or> c = CHR ''/'') (name @ port @ p)"
  using assms port_chars [of port]
  by (simp add: plain_name_def plain_path_def list_all_iff) blast

lemma plain_rest_absent:
  assumes "list_all (\<lambda>c. unreserved c \<or> c = CHR '':'' \<or> c = CHR ''/'') s"
  shows "CHR ''#'' \<notin> set s" and "CHR ''?'' \<notin> set s"
    and "\<not> (\<exists>b \<in> set s. (of_char b :: nat) < 32 \<or> (of_char b :: nat) = 127)"
  using assms
  by (auto simp: list_all_iff unreserved_def isLetter_def isDigit_def)

lemma split_authority:
  assumes "CHR ''/'' \<notin> set a" and "p = [] \<or> hd p = CHR ''/''"
  shows "takeWhile (\<lambda>c. c \<noteq> CHR ''/'') (a @ p) = a"
    and "dropWhile (\<lambda>c. c \<noteq> CHR ''/'') (a @ p) = p"
proof -
  from assms(1) have all: "\<forall>c \<in> set a. c \<noteq> CHR ''/''" by auto
  then have keep: "takeWhile (\<lambda>c. c \<noteq> CHR ''/'') a = a"
    and drop: "dropWhile (\<lambda>c. c \<noteq> CHR ''/'') a = []"
    by simp_all
  show "takeWhile (\<lambda>c. c \<noteq> CHR ''/'') (a @ p) = a"
  proof (cases p)
    case Nil
    with keep show ?thesis by simp
  next
    case (Cons c cs)
    with assms(2) have "c = CHR ''/''" by simp
    with Cons keep show ?thesis by (simp add: takeWhile_tail)
  qed
  show "dropWhile (\<lambda>c. c \<noteq> CHR ''/'') (a @ p) = p"
  proof (cases p)
    case Nil
    with drop show ?thesis by simp
  next
    case (Cons c cs)
    with assms(2) have "c = CHR ''/''" by simp
    with Cons drop show ?thesis by (simp add: dropWhile_append3)
  qed
qed

lemma setPath_plain:
  assumes "plain_path p"
  shows "setPath u p = Inr (u\<lparr>Path := p, RawPath := []\<rparr>)"
proof -
  from assms have chars: "list_all (\<lambda>c. unreserved c \<or> c = CHR ''/'') p"
    by (simp add: plain_path_def)
  then show ?thesis
    by (simp add: setPath_def unescape_path escape_path)
qed

lemma parse_plain:
  assumes sch: "sch = ''http'' \<or> sch = ''https''"
    and name: "plain_name name" and port: "validOptionalPort port" and path: "plain_path p"
  shows "parse (sch @ ''://'' @ name @ port @ p)
         = Inr \<lparr>Scheme = sch, Opaque = [], User = None, Host = name @ port, Path = p,
                RawPath = [], OmitHost = False, ForceQuery = False, RawQuery = [],
                Fragment = [], RawFragment = []\<rparr>"
proof -
  define rest where "rest = name @ port @ p"
  define rest0 where "rest0 = ''//'' @ rest"
  define raw where "raw = sch @ '':'' @ rest0"
  have chars: "list_all (\<lambda>c. unreserved c \<or> c = CHR '':'' \<or> c = CHR ''/'') rest"
    unfolding rest_def by (rule plain_rest_chars [OF name port path])
  note absent = plain_rest_absent [OF chars]
  have ctl: "\<not> stringContainsCTLByte raw"
    using sch absent(3) by (auto simp: stringContainsCTLByte_def raw_def rest0_def)
  have star: "raw \<noteq> ''*''"
    using sch by (auto simp: raw_def)
  have scheme: "getScheme raw = Inr (sch, rest0)"
    using sch by (auto simp: getScheme_def isLetter_def isDigit_def raw_def)
  have lower: "ToLower sch = sch"
    using sch by (auto simp: ToLower_def)
  have nonempty: "sch \<noteq> []"
    using sch by auto
  have no_query: "count_list rest0 CHR ''?'' = 0"
    using absent(2) by (simp add: count_list_0_iff rest0_def)
  have cut: "Cut rest0 CHR ''?'' = (rest0, [], False)"
    using absent(2) by (simp add: Cut_absent rest0_def)
  have prefixes: "HasPrefix rest0 ''/''" "HasPrefix rest0 ''//''"
    by (simp_all add: HasPrefix_def rest0_def)
  have no_slash: "CHR ''/'' \<notin> set (name @ port)"
    using name port_chars [OF port]
    by (auto simp: plain_name_def list_all_iff unreserved_def isLetter_def isDigit_def)
  from path have start: "p = [] \<or> hd p = CHR ''/''"
    by (simp add: plain_path_def)
  have auth: "takeWhile (\<lambda>c. c \<noteq> CHR ''/'') (drop 2 rest0) = name @ port"
    and after: "dropWhile (\<lambda>c. c \<noteq> CHR ''/'') (drop 2 rest0) = p"
    using split_authority [OF no_slash start] by (simp_all add: rest_def rest0_def)
  have "parse raw
         = Inr \<lparr>Scheme = sch, Opaque = [], User = None, Host = name @ port, Path = p,
                RawPath = [], OmitHost = False, ForceQuery = False, RawQuery = [],
                Fragment = [], RawFragment = []\<rparr>"
    by (simp add: parse_def ctl star scheme lower nonempty no_query cut prefixes auth after
          parseAuthority_plain [OF name port] setPath_plain [OF path] Let_def)
  then show ?thesis by (simp add: raw_def rest0_def rest_def)
qed

lemma Parse_plain:
  assumes sch: "sch = ''http'' \<or> sch = ''https''"
    and name: "plain_name name" and port: "validOptionalPort port" and path: "plain_path p"
  shows "Parse (sch @ ''://'' @ name @ port @ p)
         = Inr \<lparr>Scheme = sch, Opaque = [], User = None, Host = name @ port, Path = p,
                RawPath = [], OmitHost = False, ForceQuery = False, RawQuery = [],
                Fragment = [], RawFragment = []\<rparr>"
proof -
  define raw where "raw = sch @ ''://'' @ name @ port @ p"
  have "CHR ''#'' \<notin> set raw"
    using sch plain_rest_absent(1) [OF plain_rest_chars [OF name port path]]
    by (auto simp: raw_def)
  then have "Cut raw CHR ''#'' = (raw, [], False)"
    by (rule Cut_absent)
  moreover have "parse raw
         = Inr \<lparr>Scheme = sch, Opaque = [], User = None, Host = name @ port, Path = p,
                RawPath = [], OmitHost = False, ForceQuery = False, RawQuery = [],
                Fragment = [], RawFragment = []\<rparr>"
    unfolding raw_def by (rule parse_plain [OF sch name port path])
  ultimately have "Parse raw
         = Inr \<lparr>Scheme = sch, Opaque = [], User = None, Host = name @ port, Path = p,
                RawPath = [], OmitHost = False, ForceQuery = False, RawQuery = [],
                Fragment = [], RawFragment = []\<rparr>"
    by (simp add: Parse_def)
  then show ?thesis by (simp only: raw_def)
qed

lemma String_plain:
  assumes sch: "sch \<noteq> []"
    and name: "plain_name name" and port: "validOptionalPort port" and path: "plain_path p"
  shows "String \<lparr>Scheme = sch, Opaque = [], User = None, Host = name @ port, Path = p,
                 RawPath = [], OmitHost = False, ForceQuery = False, RawQuery = [],
                 Fragment = [], RawFragment = []\<rparr>
         = sch @ ''://'' @ name @ port @ p"
proof -
  from name have host_chars: "list_all (\<lambda>c. unreserved c \<or> c = CHR '':'') (name @ port)"
    using port_chars [OF port] by (simp add: plain_name_def list_all_iff) blast
  from path have path_chars: "list_all (\<lambda>c. unreserved c \<or> c = CHR ''/'') p"
    and start: "p = [] \<or> hd p = CHR ''/''"
    by (simp_all add: plain_path_def)
  from start have not_star: "p \<noteq> ''*''" by auto
  from name have nonempty: "name \<noteq> []" by (simp add: plain_name_def)
  have path: "EscapedPath \<lparr>Scheme = sch, Opaque = [], User = None, Host = name @ port,
                 Path = p, RawPath = [], OmitHost = False, ForceQuery = False,
                 RawQuery = [], Fragment = [], RawFragment = []\<rparr> = p"
    using not_star by (simp add: EscapedPath_def escape_path [OF path_chars])
  from start have "\<not> (p \<noteq> [] \<and> hd p \<noteq> CHR ''/'')" by auto
  with sch nonempty show ?thesis
    by (simp add: String_def path Let_def escape_host [OF host_chars])
qed

lemma not_schemed:
  assumes "CHR ''/'' \<notin> set ep"
  shows "\<not> HasPrefix ep ''http://''" and "\<not> HasPrefix ep ''https://''"
proof -
  have "CHR ''/'' \<in> set (take n ep)" if "take n ep = pre" and "CHR ''/'' \<in> set pre" for n pre
    using that by simp
  then have "take n ep \<noteq> pre" if "CHR ''/'' \<in> set pre" for n pre
    using that assms by (metis in_set_takeD)
  then show "\<not> HasPrefix ep ''http://''" and "\<not> HasPrefix ep ''https://''"
    by (simp_all add: HasPrefix_def)
qed

lemma default_path_plain: "plain_path ''/onvif/device_service''"
  by (simp add: plain_path_def unreserved_def isLetter_def isDigit_def)

lemma normalizeEndpoint_plain_url:
  assumes sch: "sch = ''http'' \<or> sch = ''https''"
    and name: "plain_name name" and port: "validOptionalPort port" and path: "plain_path p"
  shows "normalizeEndpoint (sch @ ''://'' @ name @ port @ p)
         = Inr (sch @ ''://'' @ name @ port
                  @ (if p = [] \<or> p = ''/'' then ''/onvif/device_service'' else p))"
proof -
  define ep where "ep = sch @ ''://'' @ name @ port @ p"
  have schemed: "HasPrefix ep ''http://'' \<or> HasPrefix ep ''https://''"
    using sch by (auto simp: HasPrefix_def ep_def)
  have parsed: "Parse ep
         = Inr \<lparr>Scheme = sch, Opaque = [], User = None, Host = name @ port, Path = p,
                RawPath = [], OmitHost = False, ForceQuery = False, RawQuery = [],
                Fragment = [], RawFragment = []\<rparr>"
    unfolding ep_def by (rule Parse_plain [OF sch name port path])
  from sch have nonempty: "sch \<noteq> []" by auto
  from name have host: "name @ port \<noteq> []" by (simp add: plain_name_def)
  have "normalizeEndpoint ep
         = Inr (sch @ ''://'' @ name @ port
                  @ (if p = [] \<or> p = ''/'' then ''/onvif/device_service'' else p))"
    using schemed host
    by (simp add: normalizeEndpoint_def parsed
          String_plain [OF nonempty name port path]
          String_plain [OF nonempty name port default_path_plain])
  then show ?thesis by (simp only: ep_def)
qed

lemma normalizeEndpoint_plain_host:
  assumes name: "plain_name name" and port: "validOptionalPort port"
  shows "normalizeEndpoint (name @ port)
         = Inr (''http://'' @ name @ port @ ''/onvif/device_service'')"
proof -
  define ep where "ep = name @ port"
  define full where "full = ''http://'' @ ep @ ''/onvif/device_service''"
  have "CHR ''/'' \<notin> set ep"
    using name port_chars [OF port]
    by (auto simp: ep_def plain_name_def list_all_iff unreserved_def isLetter_def
          isDigit_def)
  then have bare: "\<not> HasPrefix ep ''http://''" "\<not> HasPrefix ep ''https://''"
    by (rule not_schemed)+
  have "Parse (''http'' @ ''://'' @ name @ port @ ''/onvif/device_service'')
         = Inr \<lparr>Scheme = ''http'', Opaque = [], User = None, Host = name @ port,
                Path = ''/onvif/device_service'', RawPath = [], OmitHost = False,
                ForceQuery = False, RawQuery = [], Fragment = [], RawFragment = []\<rparr>"
    by (rule Parse_plain [OF _ name port default_path_plain]) simp
  then have parsed: "Parse full
         = Inr \<lparr>Scheme = ''http'', Opaque = [], User = None, Host = ep,
                Path = ''/onvif/device_service'', RawPath = [], OmitHost = False,
                ForceQuery = False, RawQuery = [], Fragment = [], RawFragment = []\<rparr>"
    by (simp add: full_def ep_def)
  from name have host: "ep \<noteq> []" by (simp add: plain_name_def ep_def)
  have "normalizeEndpoint ep
         = (case Parse full of
              Inl err \<Rightarrow> Inl (Wrapped ''invalid IP address or hostname: '' err)
            | Inr parsedURL \<Rightarrow>
                if Host parsedURL = [] then Inl (ErrorString ''invalid endpoint format'')
                else Inr full)"
    using bare by (simp only: normalizeEndpoint_def Let_def full_def simp_thms if_False)
  with host have "normalizeEndpoint ep = Inr full"
    by (simp add: parsed)
  then show ?thesis by (simp add: ep_def full_def)
qed

lemma applyOptions_endpoint:
  assumes "\<forall>opt \<in> set opts. \<forall>f c0 c1. opt = Some f \<and> f c0 = Returns c1
             \<longrightarrow> endpoint c1 = endpoint c0"
    and "applyOptions opts c = Returns c'"
  shows "endpoint c' = endpoint c"
  using assms
proof (induction opts arbitrary: c)
  case Nil
  then show ?case by simp
next
  case (Cons opt opts)
  from Cons.prems(2) obtain f c1 where f: "opt = Some f" and step: "f c = Returns c1"
    and rest: "applyOptions opts c1 = Returns c'"
    by (auto split: option.splits outcome.splits)
  from Cons.prems(1) f step have "endpoint c1 = endpoint c" by auto
  moreover from Cons.IH [OF _ rest] Cons.prems(1) have "endpoint c' = endpoint c1" by auto
  ultimately show ?case by simp
qed

text \<open>
  C8, as the code has it. For every input string \<open>ep\<close>: with an \<open>http://\<close> or
  \<open>https://\<close> prefix, \<open>normalizeEndpoint\<close> fails exactly when \<open>ep\<close> does not parse
  or parses with an empty host, and otherwise returns the parsed URL as \<open>String\<close>
  writes it, after an empty or \<open>/\<close> path has become \<open>/onvif/device_service\<close>; without
  such a prefix it fails exactly when \<open>"http://" + ep + "/onvif/device_service"\<close> does
  not parse or parses with an empty host, and otherwise returns exactly that string,
  which is never the one with \<open>:80\<close> between host and path. What \<open>String\<close> writes is
  the input itself, up to the default path, when the input is scheme, plain host name,
  optional port and plain path: nothing is escaped, and no port is added. A plain host
  name with an optional port, given without scheme, comes back between \<open>http://\<close> and
  the default path, with the port it had or with none. \<open>NewClient\<close> returns an error
  exactly when \<open>normalizeEndpoint\<close> fails; the client it returns has the normalized
  endpoint when the options leave the endpoint alone; and it panics only when the
  endpoint was normalized and an option is nil or panics.
\<close>

theorem normalizeEndpoint_behaviour:
  defines "withScheme ep \<equiv> HasPrefix ep ''http://'' \<or> HasPrefix ep ''https://''"
  defines "fullURL ep \<equiv> ''http://'' @ ep @ ''/onvif/device_service''"
  shows
  "(withScheme ep \<longrightarrow>
      (isl (normalizeEndpoint ep) \<longleftrightarrow>
         (case Parse ep of Inl err \<Rightarrow> True | Inr u \<Rightarrow> Host u = []))
    \<and> (\<forall>u. Parse ep = Inr u \<and> Host u \<noteq> [] \<longrightarrow>
          normalizeEndpoint ep =
            Inr (String (if Path u = [] \<or> Path u = ''/''
                         then u\<lparr>Path := ''/onvif/device_service''\<rparr> else u))))
   \<and> (\<not> withScheme ep \<longrightarrow>
      (isl (normalizeEndpoint ep) \<longleftrightarrow>
         (case Parse (fullURL ep) of Inl err \<Rightarrow> True | Inr u \<Rightarrow> Host u = []))
    \<and> (\<not> isl (normalizeEndpoint ep) \<longrightarrow>
          normalizeEndpoint ep = Inr (fullURL ep)
          \<and> normalizeEndpoint ep \<noteq> Inr (''http://'' @ ep @ '':80/onvif/device_service'')))
   \<and> ((sch = ''http'' \<or> sch = ''https'') \<and> plain_name name \<and> validOptionalPort port
        \<and> plain_path p \<longrightarrow>
        normalizeEndpoint (sch @ ''://'' @ name @ port @ p)
          = Inr (sch @ ''://'' @ name @ port
                   @ (if p = [] \<or> p = ''/'' then ''/onvif/device_service'' else p)))
   \<and> (plain_name name \<and> validOptionalPort port \<longrightarrow>
        normalizeEndpoint (name @ port)
          = Inr (''http://'' @ name @ port @ ''/onvif/device_service''))
   \<and> ((\<exists>err. NewClient ep opts = Returns (Inl err)) \<longleftrightarrow> isl (normalizeEndpoint ep))
   \<and> (\<forall>c. NewClient ep opts = Returns (Inr c)
            \<and> (\<forall>opt \<in> set opts. \<forall>f c0 c1. opt = Some f \<and> f c0 = Returns c1
                   \<longrightarrow> endpoint c1 = endpoint c0)
          \<longrightarrow> normalizeEndpoint ep = Inr (endpoint c))
   \<and> (NewClient ep opts = Panics \<longrightarrow>
        \<not> isl (normalizeEndpoint ep)
        \<and> (\<exists>opt \<in> set opts. opt = None \<or> (\<exists>f c. opt = Some f \<and> f c = Panics)))"
proof (intro conjI)
  show "withScheme ep \<longrightarrow>
      (isl (normalizeEndpoint ep) \<longleftrightarrow>
         (case Parse ep of Inl err \<Rightarrow> True | Inr u \<Rightarrow> Host u = []))
    \<and> (\<forall>u. Parse ep = Inr u \<and> Host u \<noteq> [] \<longrightarrow>
          normalizeEndpoint ep =
            Inr (String (if Path u = [] \<or> Path u = ''/''
                         then u\<lparr>Path := ''/onvif/device_service''\<rparr> else u)))"
    unfolding withScheme_def
    by (auto simp: normalizeEndpoint_def split: sum.splits)
  show "\<not> withScheme ep \<longrightarrow>
      (isl (normalizeEndpoint ep) \<longleftrightarrow>
         (case Parse (fullURL ep) of Inl err \<Rightarrow> True | Inr u \<Rightarrow> Host u = []))
    \<and> (\<not> isl (normalizeEndpoint ep) \<longrightarrow>
          normalizeEndpoint ep = Inr (fullURL ep)
          \<and> normalizeEndpoint ep \<noteq> Inr (''http://'' @ ep @ '':80/onvif/device_service''))"
    unfolding withScheme_def fullURL_def
    by (auto simp: normalizeEndpoint_def Let_def split: sum.splits)
  show "(sch = ''http'' \<or> sch = ''https'') \<and> plain_name name \<and> validOptionalPort port
        \<and> plain_path p \<longrightarrow>
        normalizeEndpoint (sch @ ''://'' @ name @ port @ p)
          = Inr (sch @ ''://'' @ name @ port
                   @ (if p = [] \<or> p = ''/'' then ''/onvif/device_service'' else p))"
    using normalizeEndpoint_plain_url [of sch name port p] by blast
  show "plain_name name \<and> validOptionalPort port \<longrightarrow>
        normalizeEndpoint (name @ port)
          = Inr (''http://'' @ name @ port @ ''/onvif/device_service'')"
    using normalizeEndpoint_plain_host [of name port] by blast
  show "(\<exists>err. NewClient ep opts = Returns (Inl err)) \<longleftrightarrow> isl (normalizeEndpoint ep)"
    by (auto simp: NewClient_def split: sum.splits outcome.splits)
  show "\<forall>c. NewClient ep opts = Returns (Inr c)
            \<and> (\<forall>opt \<in> set opts. \<forall>f c0 c1. opt = Some f \<and> f c0 = Returns c1
                   \<longrightarrow> endpoint c1 = endpoint c0)
          \<longrightarrow> normalizeEndpoint ep = Inr (endpoint c)"
  proof (intro allI impI, elim conjE)
    fix c
    assume run: "NewClient ep opts = Returns (Inr c)"
      and keep: "\<forall>opt \<in> set opts. \<forall>f c0 c1. opt = Some f \<and> f c0 = Returns c1
                   \<longrightarrow> endpoint c1 = endpoint c0"
    from run have "\<exists>c0. applyOptions opts c0 = Returns c
                  \<and> normalizeEndpoint ep = Inr (endpoint c0)"
      by (fastforce simp: NewClient_def split: sum.splits outcome.splits)
    then obtain c0 where applied: "applyOptions opts c0 = Returns c"
      and n: "normalizeEndpoint ep = Inr (endpoint c0)"
      by blast
    from applyOptions_endpoint [OF keep applied] n
    show "normalizeEndpoint ep = Inr (endpoint c)" by simp
  qed
  show "NewClient ep opts = Panics \<longrightarrow>
        \<not> isl (normalizeEndpoint ep)
        \<and> (\<exists>opt \<in> set opts. opt = None \<or> (\<exists>f c. opt = Some f \<and> f c = Panics))"
  proof (intro impI)
    assume run: "NewClient ep opts = Panics"
    have panics: "\<exists>opt \<in> set opts. opt = None \<or> (\<exists>f c. opt = Some f \<and> f c = Panics)"
      if "applyOptions opts c0 = Panics" for c0
      using that
    proof (induction opts arbitrary: c0)
      case Nil
      then show ?case by simp
    next
      case (Cons opt opts)
      then show ?case
        by (cases opt) (auto split: outcome.splits)
    qed
    from run obtain c0 where "\<not> isl (normalizeEndpoint ep)"
      and "applyOptions opts c0 = Panics"
      by (auto simp: NewClient_def split: sum.splits outcome.splits)
    with panics show "\<not> isl (normalizeEndpoint ep)
        \<and> (\<exists>opt \<in> set opts. opt = None \<or> (\<exists>f c. opt = Some f \<and> f c = Panics))"
      by blast
  qed
qed

text \<open>
  At work. The three formats of the comment of \<open>NewClient\<close>: the bare address gets
  no port, and not \<open>:80\<close>; the address with a port keeps it; the URL with the path
  \<open>/\<close> gets the default path. A full URL with a path of its own comes back as it is.
  A URL without host and a host with a space in it are refused, by \<open>NewClient\<close> too.
  \<open>NewClient\<close> with the stock options returns the client with the normalized
  endpoint, and where it panics on a nil option the endpoint had been normalized.
\<close>

theorem normalizeEndpoint_behaviour_witness:
  "normalizeEndpoint ''192.168.1.100'' = Inr ''http://192.168.1.100/onvif/device_service''
   \<and> normalizeEndpoint ''192.168.1.100''
       \<noteq> Inr ''http://192.168.1.100:80/onvif/device_service''
   \<and> normalizeEndpoint ''192.168.1.100:80''
       = Inr ''http://192.168.1.100:80/onvif/device_service''
   \<and> normalizeEndpoint ''http://192.168.1.100/''
       = Inr ''http://192.168.1.100/onvif/device_service''
   \<and> normalizeEndpoint ''https://cam.example.org:8443/onvif/media''
       = Inr ''https://cam.example.org:8443/onvif/media''
   \<and> isl (normalizeEndpoint ''http:///path'')
   \<and> isl (normalizeEndpoint ''a b'')
   \<and> isl (case NewClient ''a b'' [] of Returns r \<Rightarrow> r)
   \<and> NewClient ''192.168.1.100''
         [WithCredentials ''admin'' ''secret'', WithTimeout (5 * Second)]
       = Returns (Inr \<lparr>endpoint = ''http://192.168.1.100/onvif/device_service'',
                       username = ''admin'', password = ''secret'',
                       httpClient =
                         Some \<lparr>Transport =
                                 Some \<lparr>MaxIdleConns = 10, MaxIdleConnsPerHost = 5,
                                       IdleConnTimeout = 90 * Second\<rparr>,
                               Timeout = 5 * Second\<rparr>,
                       mediaEndpoint = [], ptzEndpoint = [], imagingEndpoint = [],
                       eventEndpoint = []\<rparr>)
   \<and> NewClient ''192.168.1.100'' [None] = Panics
   \<and> \<not> isl (normalizeEndpoint ''192.168.1.100'')"
proof -
  note plain = plain_name_def plain_path_def validOptionalPort_def unreserved_def
    isLetter_def isDigit_def
  note schemed = normalizeEndpoint_behaviour [THEN conjunct1, rule_format]
  note bare = normalizeEndpoint_behaviour [THEN conjunct2, THEN conjunct1, rule_format]
  note plain_url = normalizeEndpoint_behaviour
    [THEN conjunct2, THEN conjunct2, THEN conjunct1, rule_format]
  note plain_host = normalizeEndpoint_behaviour
    [THEN conjunct2, THEN conjunct2, THEN conjunct2, THEN conjunct1, rule_format]
  note refused = normalizeEndpoint_behaviour
    [THEN conjunct2, THEN conjunct2, THEN conjunct2, THEN conjunct2, THEN conjunct1]
  note returned = normalizeEndpoint_behaviour
    [THEN conjunct2, THEN conjunct2, THEN conjunct2, THEN conjunct2, THEN conjunct2,
     THEN conjunct1, rule_format]
  note panicked = normalizeEndpoint_behaviour
    [THEN conjunct2, THEN conjunct2, THEN conjunct2, THEN conjunct2, THEN conjunct2,
     THEN conjunct2, rule_format]

  have "normalizeEndpoint (''192.168.1.100'' @ [])
      = Inr (''http://'' @ ''192.168.1.100'' @ [] @ ''/onvif/device_service'')"
    by (rule plain_host) (simp add: plain)
  then have address: "normalizeEndpoint ''192.168.1.100''
      = Inr ''http://192.168.1.100/onvif/device_service''"
    by simp

  have "\<not> (HasPrefix ''192.168.1.100'' ''http://'' \<or> HasPrefix ''192.168.1.100'' ''https://'')"
    by (simp add: HasPrefix_def)
  moreover have "\<not> isl (normalizeEndpoint ''192.168.1.100'')"
    by (simp add: address)
  ultimately have no_port: "normalizeEndpoint ''192.168.1.100''
      \<noteq> Inr (''http://'' @ ''192.168.1.100'' @ '':80/onvif/device_service'')"
    using bare [of "''192.168.1.100''"] by blast

  have "normalizeEndpoint (''192.168.1.100'' @ '':80'')
      = Inr (''http://'' @ ''192.168.1.100'' @ '':80'' @ ''/onvif/device_service'')"
    by (rule plain_host) (simp add: plain)
  then have ported: "normalizeEndpoint ''192.168.1.100:80''
      = Inr ''http://192.168.1.100:80/onvif/device_service''"
    by simp

  have slash_prefix: "HasPrefix ''http://192.168.1.100/'' ''http://''
      \<or> HasPrefix ''http://192.168.1.100/'' ''https://''"
    by (simp add: HasPrefix_def)
  have slash_parsed: "Parse ''http://192.168.1.100/''
      = Inr \<lparr>Scheme = ''http'', Opaque = [], User = None, Host = ''192.168.1.100'',
             Path = ''/'', RawPath = [], OmitHost = False, ForceQuery = False,
             RawQuery = [], Fragment = [], RawFragment = []\<rparr>"
    by code_simp
  have slash_written: "String \<lparr>Scheme = ''http'', Opaque = [], User = None,
             Host = ''192.168.1.100'', Path = ''/onvif/device_service'', RawPath = [],
             OmitHost = False, ForceQuery = False, RawQuery = [], Fragment = [],
             RawFragment = []\<rparr>
      = ''http://192.168.1.100/onvif/device_service''"
    by code_simp
  have slash: "normalizeEndpoint ''http://192.168.1.100/''
      = Inr ''http://192.168.1.100/onvif/device_service''"
    using schemed [OF slash_prefix, THEN conjunct2, rule_format, of
        "\<lparr>Scheme = ''http'', Opaque = [], User = None, Host = ''192.168.1.100'',
          Path = ''/'', RawPath = [], OmitHost = False, ForceQuery = False,
          RawQuery = [], Fragment = [], RawFragment = []\<rparr>"]
      slash_parsed
    by (simp add: slash_written)

  have "normalizeEndpoint
        (''https'' @ ''://'' @ ''cam.example.org'' @ '':8443'' @ ''/onvif/media'')
      = Inr (''https'' @ ''://'' @ ''cam.example.org'' @ '':8443''
               @ (if ''/onvif/media'' = [] \<or> ''/onvif/media'' = ''/''
                  then ''/onvif/device_service'' else ''/onvif/media''))"
    by (rule plain_url) (simp add: plain)
  then have full: "normalizeEndpoint ''https://cam.example.org:8443/onvif/media''
      = Inr ''https://cam.example.org:8443/onvif/media''"
    by simp

  have hostless_prefix: "HasPrefix ''http:///path'' ''http://''
      \<or> HasPrefix ''http:///path'' ''https://''"
    by (simp add: HasPrefix_def)
  have hostless_parsed:
    "(case Parse ''http:///path'' of Inl err \<Rightarrow> True | Inr u \<Rightarrow> Host u = [])"
    by code_simp
  have hostless: "isl (normalizeEndpoint ''http:///path'')"
    using schemed [OF hostless_prefix, THEN conjunct1] hostless_parsed by blast

  have space_prefix: "\<not> (HasPrefix ''a b'' ''http://'' \<or> HasPrefix ''a b'' ''https://'')"
    by (simp add: HasPrefix_def)
  have space_parsed:
    "(case Parse (''http://'' @ ''a b'' @ ''/onvif/device_service'') of
        Inl err \<Rightarrow> True | Inr u \<Rightarrow> Host u = [])"
    by code_simp
  have space: "isl (normalizeEndpoint ''a b'')"
    using bare [OF space_prefix, THEN conjunct1] space_parsed by blast

  from refused [of "''a b''" "[]"] space
  obtain err where "NewClient ''a b'' [] = Returns (Inl err)"
    by blast
  then have refusal: "isl (case NewClient ''a b'' [] of Returns r \<Rightarrow> r)"
    by simp

  define c where "c = \<lparr>endpoint = ''http://192.168.1.100/onvif/device_service'',
                       username = ''admin'', password = ''secret'',
                       httpClient =
                         Some \<lparr>Transport =
                                 Some \<lparr>MaxIdleConns = 10, MaxIdleConnsPerHost = 5,
                                       IdleConnTimeout = 90 * Second\<rparr>,
                               Timeout = 5 * Second\<rparr>,
                       mediaEndpoint = [], ptzEndpoint = [], imagingEndpoint = [],
                       eventEndpoint = []\<rparr>"
  have run: "NewClient ''192.168.1.100''
         [WithCredentials ''admin'' ''secret'', WithTimeout (5 * Second)]
       = Returns (Inr c)"
    by (simp add: NewClient_def address WithCredentials_def WithTimeout_def c_def)
  have keep: "\<forall>opt \<in> set [WithCredentials ''admin'' ''secret'', WithTimeout (5 * Second)].
                \<forall>f c0 c1. opt = Some f \<and> f c0 = Returns c1 \<longrightarrow> endpoint c1 = endpoint c0"
    by (auto simp: WithCredentials_def WithTimeout_def split: option.splits)
  from returned [OF conjI, OF run keep]
  have "normalizeEndpoint ''192.168.1.100'' = Inr (endpoint c)" .
  with run have client: "NewClient ''192.168.1.100''
         [WithCredentials ''admin'' ''secret'', WithTimeout (5 * Second)]
       = Returns (Inr c) \<and> endpoint c = ''http://192.168.1.100/onvif/device_service''"
    by (simp add: address)

  have nil: "NewClient ''192.168.1.100'' [None] = Panics"
    by (simp add: NewClient_def address)
  from panicked [OF nil] have normalized: "\<not> isl (normalizeEndpoint ''192.168.1.100'')"
    by blast

  from address no_port ported slash full hostless space refusal client nil normalized
  show ?thesis by (simp add: c_def)
qed

text \<open>
  C8 as the claim states it fails in two places. The URL does not come back unchanged:
  \<open>http://192.168.1.100/a b\<close> parses, with the path \<open>/a b\<close>, and \<open>String\<close> writes
  the space as \<open>%20\<close>. And \<open>NewClient\<close> does not behave as \<open>normalizeEndpoint\<close>
  for every input: a nil option, or \<open>WithTimeout\<close> after \<open>WithHTTPClient(nil)\<close>,
  makes it panic on an endpoint that normalizes.
\<close>

theorem normalizeEndpoint_escapes_counterexample:
  "Parse ''http://192.168.1.100/a b''
     = Inr \<lparr>Scheme = ''http'', Opaque = [], User = None, Host = ''192.168.1.100'',
            Path = ''/a b'', RawPath = ''/a b'', OmitHost = False, ForceQuery = False,
            RawQuery = [], Fragment = [], RawFragment = []\<rparr>
   \<and> normalizeEndpoint ''http://192.168.1.100/a b'' = Inr ''http://192.168.1.100/a%20b''
   \<and> normalizeEndpoint ''http://192.168.1.100/a b'' \<noteq> Inr ''http://192.168.1.100/a b''
   \<and> NewClient ''192.168.1.100'' [None] = Panics
   \<and> NewClient ''192.168.1.100'' [WithHTTPClient None, WithTimeout (5 * Second)] = Panics"
proof -
  have parsed: "Parse ''http://192.168.1.100/a b''
     = Inr \<lparr>Scheme = ''http'', Opaque = [], User = None, Host = ''192.168.1.100'',
            Path = ''/a b'', RawPath = ''/a b'', OmitHost = False, ForceQuery = False,
            RawQuery = [], Fragment = [], RawFragment = []\<rparr>"
    by code_simp
  have written: "String \<lparr>Scheme = ''http'', Opaque = [], User = None,
            Host = ''192.168.1.100'', Path = ''/a b'', RawPath = ''/a b'', OmitHost = False,
            ForceQuery = False, RawQuery = [], Fragment = [], RawFragment = []\<rparr>
     = ''http://192.168.1.100/a%20b''"
    by code_simp
  have result: "normalizeEndpoint ''http://192.168.1.100/a b''
     = Inr ''http://192.168.1.100/a%20b''"
    by (simp add: normalizeEndpoint_def HasPrefix_def parsed written)
  have bare: "normalizeEndpoint ''192.168.1.100''
     = Inr ''http://192.168.1.100/onvif/device_service''"
    using normalizeEndpoint_plain_host [of "''192.168.1.100''" "[]"]
    by (simp add: plain_name_def validOptionalPort_def unreserved_def isLetter_def
          isDigit_def)
  have nil: "NewClient ''192.168.1.100'' [None] = Panics"
    by (simp add: NewClient_def bare)
  have timeout: "NewClient ''192.168.1.100'' [WithHTTPClient None, WithTimeout (5 * Second)]
     = Panics"
    by (simp add: NewClient_def bare WithHTTPClient_def WithTimeout_def)
  from parsed result nil timeout show ?thesis by simp
qed

section \<open>The wrappers: one exchange, its error returned\<close>

lemmas wrapper_defs =
  GetRemoteUser_def SetRemoteUser_def GetIPAddressFilter_def SetIPAddressFilter_def
  AddIPAddressFilter_def RemoveIPAddressFilter_def GetZeroConfiguration_def
  SetZeroConfiguration_def GetDynamicDNS_def SetDynamicDNS_def
  GetPasswordComplexityConfiguration_def SetPasswordComplexityConfiguration_def
  GetPasswordHistoryConfiguration_def SetPasswordHistoryConfiguration_def
  GetAuthFailureWarningConfiguration_def SetAuthFailureWarningConfiguration_def
  GetProfiles_def media_call_def media_wrapper_def buildIPAddressFilterRequest_def
  GetCredentials_def Call_def Let_def



text \<open>
  C3, as the code has it. A wrapper issues exactly one \<open>Call\<close> per invocation, on every
  input, from every world and whatever the exchange yields (so also when the \<open>Call\<close>
  fails: there is no second one), with one exception: a wrapper that reads a field of a
  pointer argument while it builds its request panics there on a nil argument, before
  any \<open>Call\<close>, and issues none. In device_security.go these are the three IP address
  filter wrappers and the three configuration setters; in media.go they are the six
  wrappers of \<open>media_dereferences\<close>. \<open>SetRemoteUser\<close> accepts nil.
\<close>

theorem wrappers_issue_one_call:
  "issues 1 (GetRemoteUser Xa c)
   \<and> issues 1 (SetRemoteUser Xb c remoteUser)
   \<and> issues 1 (GetIPAddressFilter Xc c)
   \<and> issues (if filter' = None then 0 else 1) (SetIPAddressFilter Xd c filter')
   \<and> issues (if filter' = None then 0 else 1) (AddIPAddressFilter Xd c filter')
   \<and> issues (if filter' = None then 0 else 1) (RemoveIPAddressFilter Xd c filter')
   \<and> issues 1 (GetZeroConfiguration Xe c)
   \<and> issues 1 (SetZeroConfiguration Xf c interfaceToken enabled)
   \<and> issues 1 (GetDynamicDNS Xg c)
   \<and> issues 1 (SetDynamicDNS Xh c dnsType name)
   \<and> issues 1 (GetPasswordComplexityConfiguration Xi c)
   \<and> issues (if complexity = None then 0 else 1)
        (SetPasswordComplexityConfiguration Xj c complexity)
   \<and> issues 1 (GetPasswordHistoryConfiguration Xk c)
   \<and> issues (if history = None then 0 else 1)
        (SetPasswordHistoryConfiguration Xl c history)
   \<and> issues 1 (GetAuthFailureWarningConfiguration Xm c)
   \<and> issues (if warning = None then 0 else 1)
        (SetAuthFailureWarningConfiguration Xn c warning)
   \<and> issues 1 (GetProfiles Xo c)
   \<and> issues (if media_dereferences op \<and> nil_argument then 0 else 1)
        (media_call op Xp c nil_argument request convert)"
  unfolding issues_def
  by (intro conjI allI;
      simp add: wrapper_defs split: sum.splits option.splits outcome.splits)

text \<open>
  At work: a failing \<open>Call\<close> is not repeated (one exchange, the one that failed), and a
  \<open>SetOSD\<close> whose argument is not nil issues its one exchange.
\<close>

theorem wrappers_issue_one_call_witness:
  "issues 1 (GetProfiles refusing example_client)
   \<and> map snd (snd (GetProfiles refusing example_client []))
       = [Some (TransportError ''connection refused'')]
   \<and> issues 1 (media_call SetOSD (answering ()) example_client False ''osd-token'' Returns)"
proof -
  have profiles: "issues 1 (GetProfiles refusing example_client)"
    by (rule wrappers_issue_one_call
          [THEN conjunct2, THEN conjunct2, THEN conjunct2, THEN conjunct2, THEN conjunct2,
           THEN conjunct2, THEN conjunct2, THEN conjunct2, THEN conjunct2, THEN conjunct2,
           THEN conjunct2, THEN conjunct2, THEN conjunct2, THEN conjunct2, THEN conjunct2,
           THEN conjunct2, THEN conjunct1])
  have log: "map snd (snd (GetProfiles refusing example_client []))
       = [Some (TransportError ''connection refused'')]"
    by (simp add: wrapper_defs refusing_def)
  have "issues (if media_dereferences SetOSD \<and> False then 0 else 1)
          (media_call SetOSD (answering ()) example_client False ''osd-token'' Returns)"
    by (rule wrappers_issue_one_call
          [THEN conjunct2, THEN conjunct2, THEN conjunct2, THEN conjunct2, THEN conjunct2,
           THEN conjunct2, THEN conjunct2, THEN conjunct2, THEN conjunct2, THEN conjunct2,
           THEN conjunct2, THEN conjunct2, THEN conjunct2, THEN conjunct2, THEN conjunct2,
           THEN conjunct2, THEN conjunct2])
  then have osd:
    "issues 1 (media_call SetOSD (answering ()) example_client False ''osd-token'' Returns)"
    by simp
  from profiles log osd show ?thesis by simp
qed

text \<open>
  C3 as the claim states it, exactly one \<open>Call\<close> on every input, fails:
  \<open>SetIPAddressFilter(ctx, nil)\<close> panics in \<open>buildIPAddressFilterRequest\<close> and the
  world is as it was, with no exchange issued.
\<close>

theorem SetIPAddressFilter_nil_counterexample:
  "SetIPAddressFilter (answering ()) example_client None [] = (Panics, [])
   \<and> \<not> issues 1 (SetIPAddressFilter (answering ()) example_client None)"
proof -
  have run: "SetIPAddressFilter (answering ()) example_client None w = (Panics, w)" for w
    by (simp add: SetIPAddressFilter_def buildIPAddressFilterRequest_def)
  have "\<not> issues 1 (SetIPAddressFilter (answering ()) example_client None)"
  proof
    assume "issues 1 (SetIPAddressFilter (answering ()) example_client None)"
    then obtain new :: world
      where "snd (SetIPAddressFilter (answering ()) example_client None []) = [] @ new"
        and "length new = 1"
      unfolding issues_def by blast
    then show False by (simp add: run)
  qed
  with run show ?thesis by simp
qed

section \<open>GetRemoteUser and GetDynamicDNS\<close>

text \<open>
  C10. Whenever the \<open>Call\<close> of \<open>GetRemoteUser\<close> succeeds and the response it decoded
  has no \<open>RemoteUser\<close> element, \<open>GetRemoteUser\<close> returns a nil \<open>*RemoteUser\<close> with a
  nil error: not an error, and not a \<open>RemoteUser\<close> with some fields set.
\<close>

theorem GetRemoteUser_absent:
  assumes "Call X (newSOAPClient c) (endpoint c) []
             \<lparr>XMLName = ''tds:GetRemoteUser'', Xmlns = deviceNamespace\<rparr> True w
           = (Inr resp, w')"
    and "resp_RemoteUser resp = None"
  shows "GetRemoteUser X c w = (Returns (Inr None), w')"
  using assms by (simp add: GetRemoteUser_def)

theorem GetRemoteUser_absent_witness:
  "Call (answering \<lparr>resp_RemoteUser = None\<rparr>) (newSOAPClient example_client)
     (endpoint example_client) []
     \<lparr>XMLName = ''tds:GetRemoteUser'', Xmlns = deviceNamespace\<rparr> True []
     = (Inr \<lparr>resp_RemoteUser = None\<rparr>,
        [(\<lparr>post_username = ''admin'', post_password = ''secret'',
           post_endpoint = ''http://192.168.1.100/onvif/device_service'',
           post_action = [], post_target = True\<rparr>, None)])
   \<and> resp_RemoteUser \<lparr>resp_RemoteUser = None\<rparr> = None
   \<and> fst (GetRemoteUser (answering \<lparr>resp_RemoteUser = None\<rparr>) example_client [])
       = Returns (Inr None)"
proof -
  have call: "Call (answering \<lparr>resp_RemoteUser = None\<rparr>) (newSOAPClient example_client)
     (endpoint example_client) []
     \<lparr>XMLName = ''tds:GetRemoteUser'', Xmlns = deviceNamespace\<rparr> True []
     = (Inr \<lparr>resp_RemoteUser = None\<rparr>,
        [(\<lparr>post_username = ''admin'', post_password = ''secret'',
           post_endpoint = ''http://192.168.1.100/onvif/device_service'',
           post_action = [], post_target = True\<rparr>, None)])"
    by (simp add: Call_def answering_def newSOAPClient_def GetCredentials_def
          soap_NewClient_def example_client_def)
  have absent: "resp_RemoteUser \<lparr>resp_RemoteUser = None\<rparr> = None" by simp
  from GetRemoteUser_absent [OF call absent] call show ?thesis by simp
qed

text \<open>
  C9. Whenever the \<open>Call\<close> of \<open>GetDynamicDNS\<close> succeeds, the
  \<open>DynamicDNSInformation\<close> returned has the \<open>Type\<close> and the \<open>Name\<close> of the
  response and the zero \<open>TTL\<close>; and the \<open>TTL\<close> of the response is discarded: put
  any other \<open>TTL\<close> into every response of the device, and \<open>GetDynamicDNS\<close> returns
  the same.
\<close>

theorem GetDynamicDNS_discards_TTL:
  "(Call X (newSOAPClient c) (endpoint c) []
      \<lparr>XMLName = ''tds:GetDynamicDNS'', Xmlns = deviceNamespace\<rparr> True w = (Inr resp, w')
    \<longrightarrow> GetDynamicDNS X c w
          = (Returns (Inr \<lparr>dns_Type = resp_dns_Type resp, dns_Name = resp_dns_Name resp,
                           dns_TTL = 0\<rparr>), w'))
   \<and> GetDynamicDNS (\<lambda>w p q. map_sum id (\<lambda>r. r\<lparr>resp_dns_TTL := ttl\<rparr>) (X w p q)) c w
       = GetDynamicDNS X c w"
  by (cases "X w \<lparr>post_username = soap_username (newSOAPClient c),
                   post_password = soap_password (newSOAPClient c),
                   post_endpoint = endpoint c, post_action = [], post_target = True\<rparr>
               \<lparr>XMLName = ''tds:GetDynamicDNS'', Xmlns = deviceNamespace\<rparr>")
     (auto simp: GetDynamicDNS_def Call_def Let_def)

theorem GetDynamicDNS_discards_TTL_witness:
  "GetDynamicDNS
     (answering \<lparr>resp_dns_Type = ''ClientUpdates'', resp_dns_Name = ''camera.example.org'',
                 resp_dns_TTL = ''PT60S''\<rparr>) example_client []
   = (Returns (Inr \<lparr>dns_Type = ''ClientUpdates'', dns_Name = ''camera.example.org'',
                    dns_TTL = 0\<rparr>),
      [(\<lparr>post_username = ''admin'', post_password = ''secret'',
         post_endpoint = ''http://192.168.1.100/onvif/device_service'',
         post_action = [], post_target = True\<rparr>, None)])"
  using GetDynamicDNS_discards_TTL
          [of "answering \<lparr>resp_dns_Type = ''ClientUpdates'',
                           resp_dns_Name = ''camera.example.org'',
                           resp_dns_TTL = ''PT60S''\<rparr>"
              example_client "[]"
              "\<lparr>resp_dns_Type = ''ClientUpdates'', resp_dns_Name = ''camera.example.org'',
                resp_dns_TTL = ''PT60S''\<rparr>"
              "[(\<lparr>post_username = ''admin'', post_password = ''secret'',
                  post_endpoint = ''http://192.168.1.100/onvif/device_service'',
                  post_action = [], post_target = True\<rparr>, None)]"]
  by (simp add: Call_def answering_def newSOAPClient_def GetCredentials_def
        soap_NewClient_def example_client_def)

section \<open>Decoding a fault\<close>

text \<open>
  C6. For every response whose body has the Fault element as its root, whatever its HTTP
  status, and for every response target the caller asks for, nil included: \<open>decode\<close>
  returns the \<open>FaultError\<close> with the code and the reason of the fault, and leaves the
  target as it was, without deserializing the body into it.
\<close>

theorem decode_fault:
  assumes "root_name (Body resp) = Some (fault_element cd)"
  shows "decode cd (Body resp) target
         = (Some (FaultError (fault_code cd (Body resp)) (fault_reason cd (Body resp))),
            target)"
  using assms by (simp add: decode_def)

text \<open>
  At work on a SOAP 1.2 fault that arrives with status 200, decoded for a caller whose
  target is a string that deserialization would overwrite with \<open>''decoded''\<close>: the
  error is the fault, and the target still holds \<open>''untouched''\<close>. The same body decoded
  for a nil target gives the same error.
\<close>

theorem decode_fault_witness:
  "(let env = \<lparr>Space = ''http://www.w3.org/2003/05/soap-envelope'', Local = ''Fault''\<rparr>;
        cd = \<lparr>fault_element = env,
              fault_code = (\<lambda>b. ''env:Sender''),
              fault_reason = (\<lambda>b. ''Sender not Authorized''),
              deserialize = (\<lambda>b t. (None, ''decoded''))\<rparr>;
        resp = \<lparr>StatusCode = 200, Body = Element env []\<rparr>
    in root_name (Body resp) = Some (fault_element cd)
     \<and> decode cd (Body resp) (Some ''untouched'')
         = (Some (FaultError ''env:Sender'' ''Sender not Authorized''), Some ''untouched'')
     \<and> decode cd (Body resp) None
         = (Some (FaultError ''env:Sender'' ''Sender not Authorized''), None))"
proof -
  define env where "env = \<lparr>Space = ''http://www.w3.org/2003/05/soap-envelope'', Local = ''Fault''\<rparr>"
  define cd :: "string codec" where
    "cd = \<lparr>fault_element = env,
           fault_code = (\<lambda>b. ''env:Sender''),
           fault_reason = (\<lambda>b. ''Sender not Authorized''),
           deserialize = (\<lambda>b t. (None, ''decoded''))\<rparr>"
  define resp where "resp = \<lparr>StatusCode = 200, Body = Element env []\<rparr>"
  have root: "root_name (Body resp) = Some (fault_element cd)"
    by (simp add: resp_def cd_def)
  from decode_fault [OF root, of "Some ''untouched''"] decode_fault [OF root, of None] root
  have "root_name (Body resp) = Some (fault_element cd)
     \<and> decode cd (Body resp) (Some ''untouched'')
         = (Some (FaultError ''env:Sender'' ''Sender not Authorized''), Some ''untouched'')
     \<and> decode cd (Body resp) None
         = (Some (FaultError ''env:Sender'' ''Sender not Authorized''), None)"
    by (simp add: cd_def)
  then show ?thesis
    unfolding env_def cd_def resp_def Let_def .
qed

section \<open>Merging the replies of all interfaces\<close>

lemma collect_keys:
  "set (map endpointReference (collect seen arrivals))
   = set (map endpointReference seen)
     \<union> {k. \<exists>d. Some d \<in> set arrivals \<and> endpointReference d = k}"
  by (induction seen arrivals rule: collect.induct) auto

lemma collect_distinct:
  "distinct (map endpointReference seen)
   \<Longrightarrow> distinct (map endpointReference (collect seen arrivals))"
  by (induction seen arrivals rule: collect.induct) auto

lemma collect_first_seen:
  "d \<in> set (collect seen arrivals) \<Longrightarrow>
   d \<in> set seen
   \<or> (endpointReference d \<notin> set (map endpointReference seen)
      \<and> first_seen (endpointReference d) arrivals = Some (Some d))"
proof (induction seen arrivals rule: collect.induct)
  case (1 seen)
  then show ?case by simp
next
  case (2 seen arrivals)
  then show ?case by (simp add: first_seen_def)
next
  case (3 seen e arrivals)
  show ?case
  proof (cases "endpointReference e \<in> set (map endpointReference seen)")
    case True
    with 3 show ?thesis by (auto simp: first_seen_def)
  next
    case False
    with 3 have "d \<in> set (seen @ [e])
       \<or> (endpointReference d \<notin> set (map endpointReference (seen @ [e]))
          \<and> first_seen (endpointReference d) arrivals = Some (Some d))"
      by simp
    with False show ?thesis by (auto simp: first_seen_def)
  qed
qed

lemma first_seen_member:
  "first_seen k arrivals = Some (Some d) \<Longrightarrow> Some d \<in> set arrivals \<and> endpointReference d = k"
  unfolding first_seen_def
  by (induction arrivals) (auto split: if_splits)

text \<open>
  C7. For every sequence of arrivals: the merged devices have pairwise different endpoint
  references, these are exactly the endpoint references of the replies that parse, and
  each merged device is the first reply of the sequence with its endpoint reference (so
  its \<open>xAddrs\<close> are the first seen). In particular, when one interface yields \<open>X\<close>
  and \<open>Y\<close> and another \<open>Y\<close> and \<open>Z\<close>, with three different endpoint references,
  then in whatever order the four replies arrive the merged set is exactly
  \<open>{X, Y, Z}\<close>.
\<close>

theorem merge_by_endpoint_reference:
  "distinct (map endpointReference (merge arrivals))
   \<and> set (map endpointReference (merge arrivals))
       = {k. \<exists>d. Some d \<in> set arrivals \<and> endpointReference d = k}
   \<and> (\<forall>d \<in> set (merge arrivals).
         first_seen (endpointReference d) arrivals = Some (Some d))
   \<and> (distinct [endpointReference X, endpointReference Y, endpointReference Z] \<longrightarrow>
        (\<forall>both \<in> shuffles [Some X, Some Y] [Some Y, Some Z].
           set (merge both) = {X, Y, Z}))"
proof (intro conjI impI ballI)
  show "distinct (map endpointReference (merge arrivals))"
    unfolding merge_def by (rule collect_distinct) simp
  show "set (map endpointReference (merge arrivals))
       = {k. \<exists>d. Some d \<in> set arrivals \<and> endpointReference d = k}"
    using collect_keys [of "[]" arrivals] by (simp add: merge_def)
  show "first_seen (endpointReference d) arrivals = Some (Some d)"
    if "d \<in> set (merge arrivals)" for d
    using collect_first_seen [of d "[]" arrivals] that by (simp add: merge_def)
next
  fix both
  assume keys: "distinct [endpointReference X, endpointReference Y, endpointReference Z]"
    and both: "both \<in> shuffles [Some X, Some Y] [Some Y, Some Z]"
  from both have replies: "set both = {Some X, Some Y, Some Z}"
    by (auto simp: set_shuffles)
  have sub: "d \<in> {X, Y, Z}" if "d \<in> set (merge both)" for d
  proof -
    from collect_first_seen [of d "[]" both] that
    have "first_seen (endpointReference d) both = Some (Some d)"
      by (simp add: merge_def)
    then have "Some d \<in> set both" by (simp add: first_seen_member)
    with replies show ?thesis by auto
  qed
  have all_keys: "set (map endpointReference (merge both))
      = {endpointReference X, endpointReference Y, endpointReference Z}"
    using collect_keys [of "[]" both] replies by (auto simp: merge_def)
  have sup: "d \<in> set (merge both)" if "d \<in> {X, Y, Z}" for d
  proof -
    from that all_keys have "endpointReference d \<in> set (map endpointReference (merge both))"
      by auto
    then obtain d' where d': "d' \<in> set (merge both)"
      and same: "endpointReference d' = endpointReference d"
      by auto
    from sub [OF d'] that same keys have "d' = d" by auto
    with d' show ?thesis by simp
  qed
  from sub sup show "set (merge both) = {X, Y, Z}" by blast
qed

text \<open>
  At work: \<open>Y\<close> is seen first on one interface and again, under another address, on
  the other, and one reply does not parse; the merge keeps \<open>X\<close>, the first \<open>Y\<close> and
  \<open>Z\<close>. And with \<open>X, Y\<close> on one interface and \<open>Y, Z\<close> on the other, arriving
  interleaved, the merged set is \<open>{X, Y, Z}\<close>.
\<close>

theorem merge_by_endpoint_reference_witness:
  "merge [Some camera_X, Some camera_Y, None, Some camera_Y_again, Some camera_Z]
     = [camera_X, camera_Y, camera_Z]
   \<and> first_seen ''urn:uuid:y''
        [Some camera_X, Some camera_Y, None, Some camera_Y_again, Some camera_Z]
       = Some (Some camera_Y)
   \<and> [Some camera_Y, Some camera_X, Some camera_Z, Some camera_Y]
       \<in> shuffles [Some camera_X, Some camera_Y] [Some camera_Y, Some camera_Z]
   \<and> set (merge [Some camera_Y, Some camera_X, Some camera_Z, Some camera_Y])
       = {camera_X, camera_Y, camera_Z}"
proof -
  have run: "merge [Some camera_X, Some camera_Y, None, Some camera_Y_again, Some camera_Z]
     = [camera_X, camera_Y, camera_Z]"
    by (simp add: merge_def camera_X_def camera_Y_def camera_Y_again_def camera_Z_def
          camera_def)
  have first: "first_seen ''urn:uuid:y''
        [Some camera_X, Some camera_Y, None, Some camera_Y_again, Some camera_Z]
       = Some (Some camera_Y)"
    by (simp add: first_seen_def camera_X_def camera_Y_def camera_def)
  have keys: "distinct [endpointReference camera_X, endpointReference camera_Y,
                        endpointReference camera_Z]"
    by (simp add: camera_X_def camera_Y_def camera_Z_def camera_def)
  have order: "[Some camera_Y, Some camera_X, Some camera_Z, Some camera_Y]
       \<in> shuffles [Some camera_X, Some camera_Y] [Some camera_Y, Some camera_Z]"
    by (simp add: camera_X_def camera_Y_def camera_Z_def camera_def)
  from merge_by_endpoint_reference [of "[]" camera_X camera_Y camera_Z] keys order
  have "set (merge [Some camera_Y, Some camera_X, Some camera_Z, Some camera_Y])
       = {camera_X, camera_Y, camera_Z}"
    by blast
  with run first order show ?thesis by simp
qed

section \<open>The password digest and its published example\<close>

lemma replicate_numeral: "replicate (numeral v) x = x # replicate (numeral v - 1) x"
  by (simp add: numeral_eq_Suc)

lemmas sha1_eval =
  SHA1_def sha1_blocks.simps sha1_block_def sha1_rounds.simps sha1_pad_def bytes_of_def
  length_bytes_def replicate_numeral rotl_def sha1_f_def sha1_K_def add32_def not32_def
  word32_bytes_def

lemma SHA1_abc:
  "SHA1 (bytes_of ''abc'')
   = [0xA9, 0x99, 0x3E, 0x36, 0x47, 0x06, 0x81, 0x6A, 0xBA, 0x3E,
      0x25, 0x71, 0x78, 0x50, 0xC2, 0x6C, 0x9C, 0xD0, 0xD8, 0x9D]"
  by (simp add: sha1_eval)

lemma SHA1_example:
  "SHA1 (example_nonce @ bytes_of ''2010-09-16T07:50:45Z'' @ bytes_of ''userpassword'')
   = [182, 227, 146, 164, 105, 69, 148, 133, 236, 163, 58, 184, 28, 83, 94, 120, 103, 133, 44, 66]"
  by (simp add: sha1_eval example_nonce_def)

lemma base64_example:
  "base64 [182, 227, 146, 164, 105, 69, 148, 133, 236, 163, 58, 184, 28, 83, 94, 120, 103,
           133, 44, 66]
   = ''tuOSpGlFlIXsozq4HFNeeGeFLEI=''"
  by (simp add: base64_alphabet_def)

lemma base64_nonce: "base64 example_nonce = ''LKqI6G/AikKCQrN0zqZFlg==''"
  by (simp add: base64_alphabet_def example_nonce_def)

text \<open>
  C5. For all byte strings \<open>nonce\<close>, \<open>created\<close> and \<open>password\<close>, the password
  digest is \<open>base64(SHA1(nonce ++ created ++ password))\<close>, concatenated in that
  order with nothing in between: a function of the triple alone. It reproduces the
  example that the ONVIF documentation publishes for the UsernameToken digest: nonce
  \<open>LKqI6G/AikKCQrN0zqZFlg==\<close> (the base64 of the 16 nonce bytes), created
  \<open>2010-09-16T07:50:45Z\<close>, password \<open>userpassword\<close>, digest
  \<open>tuOSpGlFlIXsozq4HFNeeGeFLEI=\<close>.
\<close>

theorem passwordDigest_formula:
  "passwordDigest nonce created password' = base64 (SHA1 (nonce @ created @ password'))
   \<and> base64 example_nonce = ''LKqI6G/AikKCQrN0zqZFlg==''
   \<and> passwordDigest example_nonce (bytes_of ''2010-09-16T07:50:45Z'')
         (bytes_of ''userpassword'')
       = ''tuOSpGlFlIXsozq4HFNeeGeFLEI=''"
  by (simp only: passwordDigest_def SHA1_example base64_example base64_nonce simp_thms)

end
